theory Spec2Isabelle
  imports Main "HOL-Library.AList"
begin

section \<open>JavaScript values\<close>

text \<open>
  The option objects handled by \<^verbatim>\<open>rollup/index.ts\<close> are loosely typed
  (\<^verbatim>\<open>GenericConfigObject = { [key: string]: any }\<close>).  They are modelled as JavaScript
  values: an object is the list of its own enumerable properties in insertion order (the
  order \<^verbatim>\<open>Object.keys\<close> reports for names that are not array indices), an array is the
  list of its elements, and a function is an opaque, named value.  Numbers are integers
  here; no number is computed with in the code below.
\<close>

datatype jsval =
    JUndefined
  | JNull
  | JBool bool
  | JNum int
  | JStr string
  | JFun string
  | JArr "jsval list"
  | JObj "(string \<times> jsval) list"

type_synonym jsobj = "(string \<times> jsval) list"

text \<open>Truthiness, as tested by \<^verbatim>\<open>if (x)\<close>, \<^verbatim>\<open>!x\<close>, \<^verbatim>\<open>x && y\<close> and \<^verbatim>\<open>x || y\<close>.\<close>

fun truthy :: "jsval \<Rightarrow> bool" where
  "truthy JUndefined = False"
| "truthy JNull = False"
| "truthy (JBool b) = b"
| "truthy (JNum n) = (n \<noteq> 0)"
| "truthy (JStr s) = (s \<noteq> [])"
| "truthy (JFun f) = True"
| "truthy (JArr xs) = True"
| "truthy (JObj ps) = True"

text \<open>\<^verbatim>\<open>typeof x === 'string'\<close>.\<close>

fun is_string :: "jsval \<Rightarrow> bool" where
  "is_string (JStr s) = True"
| "is_string _ = False"

text \<open>Reading the property \<open>k\<close> of an object: \<^verbatim>\<open>undefined\<close> when it has none.\<close>

definition get_prop :: "jsobj \<Rightarrow> string \<Rightarrow> jsval" where
  "get_prop obj k = (case map_of obj k of None \<Rightarrow> JUndefined | Some v \<Rightarrow> v)"

text \<open>
  Reading a named property of any value that is neither \<^verbatim>\<open>undefined\<close> nor
  \<^verbatim>\<open>null\<close>.  The names read in this file (\<^verbatim>\<open>output\<close>, \<^verbatim>\<open>file\<close>, \<^verbatim>\<open>dir\<close>,
  \<^verbatim>\<open>sourcemapFile\<close>) are properties of objects only; on a primitive, a function or an
  array the read gives \<^verbatim>\<open>undefined\<close>.
\<close>

fun member :: "jsval \<Rightarrow> string \<Rightarrow> jsval" where
  "member (JObj ps) k = get_prop ps k"
| "member _ k = JUndefined"

text \<open>The decimal numeral of an array index, the property name of an element.\<close>

fun dec :: "nat \<Rightarrow> string" where
  "dec n = (if n < 10 then [char_of (48 + n)] else dec (n div 10) @ [char_of (48 + n mod 10)])"

declare dec.simps [simp del]

text \<open>
  The own enumerable properties that an object spread \<^verbatim>\<open>{ ...v }\<close> copies: those of an
  object, the elements of an array and the characters of a string under their indices, and
  nothing for any other value (\<^verbatim>\<open>undefined\<close> and \<^verbatim>\<open>null\<close> included).
\<close>

fun own_props :: "jsval \<Rightarrow> jsobj" where
  "own_props (JObj ps) = ps"
| "own_props (JArr xs) = zip (map dec [0..<length xs]) xs"
| "own_props (JStr s) = zip (map dec [0..<length s]) (map (\<lambda>c. JStr [c]) s)"
| "own_props _ = []"

text \<open>
  \<^verbatim>\<open>{ ...acc, ...v }\<close>: each property of \<open>v\<close> is assigned in turn; an existing name keeps
  its place and takes the new value, a new name is appended.
\<close>

definition spread :: "jsobj \<Rightarrow> jsval \<Rightarrow> jsobj" where
  "spread acc v = fold (\<lambda>(k, x). AList.update k x) (own_props v) acc"

text \<open>An object has each property name once.\<close>

definition wf_obj :: "jsobj \<Rightarrow> bool" where
  "wf_obj ps = distinct (map fst ps)"

section \<open>Failures and warnings\<close>

text \<open>
  A thrown value or a rejection reason: the \<^verbatim>\<open>code\<close> it carries, if any, and its
  message.  \<^verbatim>\<open>throw new Error(m)\<close> carries no code.
\<close>

datatype rollup_error = RollupError (err_code: "string option") (err_message: string)

text \<open>
  Modelled from the spec: \<^verbatim>\<open>utils/error\<close>, which is imported by
  \<^verbatim>\<open>rollup/index.ts\<close> but whose source is not part of the files at hand.  The spec has
  it raise a failure and never return, the failure value carrying the properties it was
  given; of these the code and the message are kept.
\<close>

definition error :: "string option \<Rightarrow> string \<Rightarrow> rollup_error + 'a" where
  "error c m = Inl (RollupError c m)"

datatype warning =
  Warning (w_code: string) (w_message: string) (w_deprecations: "(string \<times> string) list")

text \<open>\<^verbatim>\<open>xs.join(sep)\<close> on strings.\<close>

fun join :: "string \<Rightarrow> string list \<Rightarrow> string" where
  "join sep [] = []"
| "join sep [x] = x"
| "join sep (x # y # ys) = x @ sep @ join sep (y # ys)"

text \<open>The UTF-8 bytes of the dashes that occur in two messages.\<close>

definition em_dash :: string where
  "em_dash = [char_of (226::nat), char_of (128::nat), char_of (148::nat)]"

definition en_dash :: string where
  "en_dash = [char_of (226::nat), char_of (128::nat), char_of (147::nat)]"

text \<open>\<^verbatim>\<open>addDeprecations\<close>: the warning handed to the warning sink.\<close>

definition addDeprecations :: "(string \<times> string) list \<Rightarrow> warning" where
  "addDeprecations deprecations =
     Warning ''DEPRECATED_OPTIONS''
       (''The following options have been renamed '' @ em_dash @ '' please update your config: '' @
          join '', '' (map (\<lambda>(old, new). old @ '' -> '' @ new) deprecations))
       deprecations"

section \<open>Option checks\<close>

definition checkInputOptions :: "jsobj \<Rightarrow> rollup_error + unit" where
  "checkInputOptions options =
     (if truthy (get_prop options ''transform'') \<or> truthy (get_prop options ''load'') \<or>
         truthy (get_prop options ''resolveId'') \<or> truthy (get_prop options ''resolveExternal'')
      then Inl (RollupError None
        ''The `transform`, `load`, `resolveId` and `resolveExternal` options are deprecated in favour of a unified plugin API. See https://github.com/rollup/rollup/wiki/Plugins for details'')
      else Inr ())"

definition checkOutputOptions :: "jsobj \<Rightarrow> rollup_error + unit" where
  "checkOutputOptions options =
     (if get_prop options ''format'' = JStr ''es6''
      then error None (''The `es6` output format is deprecated '' @ en_dash @ '' use `es` instead'')
      else if \<not> truthy (get_prop options ''format'')
      then error None
        (''You must specify options.format, which can be one of 'amd', 'cjs', 'system', 'esm', 'iife' or 'umd'' @ [char_of (39::nat)])
      else if truthy (get_prop options ''moduleId'') \<and> truthy (get_prop options ''amd'')
      then Inl (RollupError None ''Cannot have both options.amd and options.moduleId'')
      else Inr ())"

definition fails_with :: "rollup_error + 'a \<Rightarrow> string option \<Rightarrow> bool" where
  "fails_with r c = (case r of Inl e \<Rightarrow> err_code e = c | Inr x \<Rightarrow> False)"

section \<open>Plugins and the option merger\<close>

text \<open>
  What a hook does when it is invoked: it throws synchronously, or it returns a value or a
  promise that is fulfilled, or it returns a promise that is rejected.
\<close>

datatype hook_result = Throws rollup_error | Fulfils | Rejects rollup_error

text \<open>
  \<^verbatim>\<open>utils/mergeOptions\<close> is imported, and its source is not part of the files at hand:
  it is a parameter of the model.  It is given the configuration and which of
  \<^verbatim>\<open>deprecateConfig: { input: true }\<close> and \<^verbatim>\<open>{ output: true }\<close> it was called with, and
  returns the four fields the code below reads.  \<^verbatim>\<open>optionError\<close> is a string or
  \<^verbatim>\<open>null\<close>.
\<close>

datatype deprecate_config = DeprecateInput | DeprecateOutput

record merged_options =
  mo_inputOptions :: jsobj
  mo_outputOptions :: "jsobj list"
  mo_deprecations :: "(string \<times> string) list"
  mo_optionError :: "string option"

type_synonym merge_fn = "jsval \<Rightarrow> deprecate_config \<Rightarrow> merged_options"

text \<open>\<^verbatim>\<open>if (optionError)\<close>: a non-empty string.\<close>

definition option_error_set :: "string option \<Rightarrow> bool" where
  "option_error_set oe = (case oe of None \<Rightarrow> False | Some m \<Rightarrow> m \<noteq> [])"

text \<open>
  The \<^verbatim>\<open>options\<close> hook of a plugin maps the input options to a replacement or to
  nothing (\<^verbatim>\<open>InputOptions | void\<close>), or throws.  The plugin array itself is kept apart
  from the option object, whose values are data: the hooks are folded over the array as it
  was before any of them ran, as \<^verbatim>\<open>inputOptions.plugins.reduce\<close> does.
\<close>

type_synonym options_hook = "jsobj \<Rightarrow> rollup_error + jsobj option"

definition applyOptionHook :: "jsobj \<Rightarrow> options_hook option \<Rightarrow> rollup_error + jsobj" where
  "applyOptionHook inputOptions hook =
     (case hook of
        None \<Rightarrow> Inr inputOptions
      | Some h \<Rightarrow>
          (case h inputOptions of
             Inl e \<Rightarrow> Inl e
           | Inr None \<Rightarrow> Inr inputOptions
           | Inr (Some replaced) \<Rightarrow> Inr replaced))"

fun reduce_option_hooks :: "options_hook option list \<Rightarrow> jsobj \<Rightarrow> rollup_error + jsobj" where
  "reduce_option_hooks [] inputOptions = Inr inputOptions"
| "reduce_option_hooks (h # hs) inputOptions =
     (case applyOptionHook inputOptions h of
        Inl e \<Rightarrow> Inl e
      | Inr inputOptions' \<Rightarrow> reduce_option_hooks hs inputOptions')"

text \<open>
  \<^verbatim>\<open>Object.keys(input).length > 1\<close> for a value with \<^verbatim>\<open>typeof input === 'object'\<close>;
  \<^verbatim>\<open>Object.keys(null)\<close> throws a \<^verbatim>\<open>TypeError\<close>.
\<close>

fun multiple_inputs :: "jsval \<Rightarrow> rollup_error + bool" where
  "multiple_inputs (JArr xs) = Inr (length xs > 1)"
| "multiple_inputs (JObj ps) = Inr (length ps > 1)"
| "multiple_inputs JNull = Inl (RollupError None ''Cannot convert undefined or null to object'')"
| "multiple_inputs _ = Inr False"

text \<open>
  The checks of \<^verbatim>\<open>getInputOptions\<close> on the options that the \<^verbatim>\<open>options\<close> hooks
  returned (the \<^verbatim>\<open>if (inputOptions.inlineDynamicImports) ... else if
  (inputOptions.preserveModules) ...\<close> statement).
\<close>

definition check_chunking_options :: "jsobj \<Rightarrow> rollup_error + unit" where
  "check_chunking_options inputOptions =
     (if truthy (get_prop inputOptions ''inlineDynamicImports'') then
        (if truthy (get_prop inputOptions ''manualChunks'')
         then error (Some ''INVALID_OPTION'')
                ''\"manualChunks\" option is not supported for inlineDynamicImports.''
         else if truthy (get_prop inputOptions ''optimizeChunks'')
         then error (Some ''INVALID_OPTION'')
                ''\"optimizeChunks\" option is not supported for inlineDynamicImports.''
         else
           (case multiple_inputs (get_prop inputOptions ''input'') of
              Inl e \<Rightarrow> Inl e
            | Inr True \<Rightarrow> error (Some ''INVALID_OPTION'')
                ''Multiple inputs are not supported for inlineDynamicImports.''
            | Inr False \<Rightarrow> Inr ()))
      else if truthy (get_prop inputOptions ''preserveModules'') then
        (if truthy (get_prop inputOptions ''inlineDynamicImports'')
         then error (Some ''INVALID_OPTION'')
                ''preserveModules does not support the inlineDynamicImports option.''
         else if truthy (get_prop inputOptions ''manualChunks'')
         then error (Some ''INVALID_OPTION'')
                ''preserveModules does not support the manualChunks option.''
         else if truthy (get_prop inputOptions ''optimizeChunks'')
         then error (Some ''INVALID_OPTION'')
                ''preserveModules does not support the optimizeChunks option.''
         else Inr ())
      else Inr ())"

text \<open>
  \<^verbatim>\<open>getInputOptions\<close>.  The result pairs the warnings handed to
  \<^verbatim>\<open>inputOptions.onwarn\<close>, in order, with the options or the value thrown.  \<open>hooks\<close> are
  the \<^verbatim>\<open>options\<close> hooks of \<^verbatim>\<open>ensureArray(inputOptions.plugins)\<close>, \<open>None\<close> for a plugin
  that has none.
\<close>

definition getInputOptions ::
  "merge_fn \<Rightarrow> options_hook option list \<Rightarrow> jsval \<Rightarrow> warning list \<times> (rollup_error + jsobj)" where
  "getInputOptions mergeOptions hooks rawInputOptions =
     (if \<not> truthy rawInputOptions
      then ([], Inl (RollupError None ''You must supply an options object to rollup''))
      else
        let merged = mergeOptions rawInputOptions DeprecateInput;
            inputOptions = mo_inputOptions merged;
            warnings =
              (if option_error_set (mo_optionError merged)
               then [Warning ''UNKNOWN_OPTION'' (the (mo_optionError merged)) []] else []) @
              (if mo_deprecations merged \<noteq> []
               then [addDeprecations (mo_deprecations merged)] else [])
        in (warnings,
            case checkInputOptions inputOptions of
              Inl e \<Rightarrow> Inl e
            | Inr u \<Rightarrow>
                (case reduce_option_hooks hooks inputOptions of
                   Inl e \<Rightarrow> Inl e
                 | Inr inputOptions' \<Rightarrow>
                     (case check_chunking_options inputOptions' of
                        Inl e \<Rightarrow> Inl e
                      | Inr u' \<Rightarrow> Inr inputOptions'))))"

text \<open>
  The object that \<^verbatim>\<open>normalizeOutputOptions\<close> hands to the merger:
  \<^verbatim>\<open>{ output: { ...rawOutputOptions, ...rawOutputOptions.output, ...inputOptions.output } }\<close>.
\<close>

definition consolidated_output :: "jsobj \<Rightarrow> jsval \<Rightarrow> jsobj" where
  "consolidated_output inputOptions rawOutputOptions =
     spread (spread (spread [] rawOutputOptions) (member rawOutputOptions ''output''))
       (get_prop inputOptions ''output'')"

definition consolidatedOutputOptions :: "jsobj \<Rightarrow> jsval \<Rightarrow> jsval" where
  "consolidatedOutputOptions inputOptions rawOutputOptions =
     JObj [(''output'', JObj (consolidated_output inputOptions rawOutputOptions))]"

text \<open>
  \<^verbatim>\<open>normalizeOutputOptions\<close>, with the warnings handed to \<^verbatim>\<open>inputOptions.onwarn\<close>.
  Reading \<^verbatim>\<open>outputOptions[0]\<close> of an empty array gives \<^verbatim>\<open>undefined\<close>, whose
  \<^verbatim>\<open>format\<close> cannot be read.
\<close>

definition normalizeOutputOptions ::
  "merge_fn \<Rightarrow> jsobj \<Rightarrow> jsval \<Rightarrow> warning list \<times> (rollup_error + jsobj)" where
  "normalizeOutputOptions mergeOptions inputOptions rawOutputOptions =
     (if \<not> truthy rawOutputOptions
      then ([], Inl (RollupError None ''You must supply an options object''))
      else
        let mergedOptions =
              mergeOptions (consolidatedOutputOptions inputOptions rawOutputOptions) DeprecateOutput
        in if option_error_set (mo_optionError mergedOptions)
           then ([], Inl (RollupError None (the (mo_optionError mergedOptions))))
           else
             (if mo_deprecations mergedOptions \<noteq> []
              then [addDeprecations (mo_deprecations mergedOptions)] else [],
              case mo_outputOptions mergedOptions of
                [] \<Rightarrow> Inl (RollupError None ''Cannot read property 'format' of undefined'')
              | outputOptions # rest \<Rightarrow>
                  (case checkOutputOptions outputOptions of
                     Inl e \<Rightarrow> Inl e
                   | Inr u \<Rightarrow> Inr outputOptions)))"

text \<open>
  A merger that hands the configuration through as it is, reports no unknown option and
  renames nothing: the instance of the parameter at which the model is evaluated on
  concrete configurations.
\<close>

definition pass_through_merge :: merge_fn where
  "pass_through_merge config deprecateConfig =
     \<lparr> mo_inputOptions = own_props config,
       mo_outputOptions = [own_props (member config ''output'')],
       mo_deprecations = [],
       mo_optionError = None \<rparr>"

section \<open>The data model\<close>

text \<open>
  A source map is opaque but for its two renderings, \<^verbatim>\<open>toString()\<close> and \<^verbatim>\<open>toUrl()\<close>.
\<close>

record source_map =
  sm_toString :: string
  sm_toUrl :: string

text \<open>
  An entry of the output bundle is an \<^verbatim>\<open>OutputAsset\<close> (\<^verbatim>\<open>isAsset: true\<close>) or an
  \<^verbatim>\<open>OutputChunk\<close>, whose \<^verbatim>\<open>code\<close> and \<^verbatim>\<open>map\<close> are \<^verbatim>\<open>undefined\<close> until the chunk is
  rendered.  Of \<^verbatim>\<open>modules\<close> the keys are kept.
\<close>

datatype output_file =
    OutputAsset (fileName: string) (asset_source: string)
  | OutputChunk (fileName: string) (isEntry: bool) (chunk_imports: "string list")
      (chunk_exports: "string list") (chunk_modules: "string list")
      (chunk_code: "string option") (chunk_map: "source_map option")

fun isOutputAsset :: "output_file \<Rightarrow> bool" where
  "isOutputAsset (OutputAsset f s) = True"
| "isOutputAsset (OutputChunk f e i x m c mp) = False"

text \<open>
  The output bundle: an object keyed by file name, as the list of its properties in
  insertion order.  \<^verbatim>\<open>outputBundle[k] = v\<close> is \<^const>\<open>AList.update\<close>.
\<close>

type_synonym output_bundle = "(string \<times> output_file) list"

text \<open>An asset of the registry: its name, and its source and file name once set.\<close>

record asset =
  a_name :: string
  a_source :: "string option"
  a_fileName :: "string option"

text \<open>
  A chunk belongs to the graph.  The fields are those that \<^verbatim>\<open>rollup/index.ts\<close> reads
  or writes: \<^verbatim>\<open>id\<close> (unset until the chunk is named), \<^verbatim>\<open>entryModule\<close> (its id, when
  there is one), \<^verbatim>\<open>isEntryModuleFacade\<close>, \<^verbatim>\<open>exportMode\<close> and the keys of
  \<^verbatim>\<open>renderedModules\<close>.
\<close>

record chunk =
  c_id :: "string option"
  c_entryModule :: "string option"
  c_isEntryModuleFacade :: bool
  c_exportMode :: "string option"
  c_renderedModules :: "string list"

text \<open>
  A plugin, with the hooks that \<^verbatim>\<open>rollup/index.ts\<close> invokes itself; \<open>None\<close> for a hook
  the plugin does not have.  \<^verbatim>\<open>buildEnd\<close> is given the failure, if any.  A
  \<^verbatim>\<open>generateBundle\<close> hook is given the output options, the bundle and \<^verbatim>\<open>isWrite\<close>; it
  may change the bundle, and the assets of this generate call through the context it is
  called on.
\<close>

record plugin =
  p_name :: string
  p_options :: "options_hook option"
  p_buildStart :: "hook_result option"
  p_buildEnd :: "(rollup_error option \<Rightarrow> hook_result) option"
  p_ongenerate :: "(jsobj \<Rightarrow> output_file \<Rightarrow> hook_result) option"
  p_onwrite :: "(jsval \<Rightarrow> output_file \<Rightarrow> hook_result) option"
  p_generateBundle ::
    "(jsobj \<Rightarrow> output_bundle \<Rightarrow> (string \<times> asset) list \<Rightarrow> bool \<Rightarrow>
      (output_bundle \<times> (string \<times> asset) list) \<times> hook_result) option"

section \<open>Hook fan-out\<close>

text \<open>
  \<^verbatim>\<open>plugins.map(plugin => plugin.hook && plugin.hook.call(...))\<close>: the hooks are invoked
  in the order of the plugins.  A hook that throws ends the \<^verbatim>\<open>map\<close>, and the hooks of the
  later plugins are not invoked.  The result is the list of the plugins whose hook was
  invoked, with the value thrown or the values returned.
\<close>

fun invoke_all :: "('l \<times> hook_result option) list \<Rightarrow> 'l list \<times> (rollup_error + hook_result list)" where
  "invoke_all [] = ([], Inr [])"
| "invoke_all ((l, None) # hs) = invoke_all hs"
| "invoke_all ((l, Some (Throws e)) # hs) = ([l], Inl e)"
| "invoke_all ((l, Some r) # hs) =
     (case invoke_all hs of
        (ls, Inl e) \<Rightarrow> (l # ls, Inl e)
      | (ls, Inr rs) \<Rightarrow> (l # ls, Inr (r # rs)))"

text \<open>
  \<^verbatim>\<open>Promise.all\<close> over the values returned: fulfilled when none is a rejected promise,
  and rejected otherwise.  When several are rejected, JavaScript takes the reason of the
  one that is rejected first in time; the model takes the first in the array.
\<close>

fun promise_all :: "hook_result list \<Rightarrow> hook_result" where
  "promise_all [] = Fulfils"
| "promise_all (Rejects e # rs) = Rejects e"
| "promise_all (r # rs) = promise_all rs"

text \<open>
  \<^verbatim>\<open>Promise.all(plugins.map(...)).then(() => {})\<close>: the plugins whose hook was invoked,
  and whether the call throws, or returns a promise that is fulfilled or rejected.
\<close>

definition fan_out :: "('l \<times> hook_result option) list \<Rightarrow> 'l list \<times> hook_result" where
  "fan_out hs =
     (case invoke_all hs of
        (ls, Inl e) \<Rightarrow> (ls, Throws e)
      | (ls, Inr rs) \<Rightarrow> (ls, promise_all rs))"

definition applyBuildStartHook :: "plugin list \<Rightarrow> string list \<times> hook_result" where
  "applyBuildStartHook plugins = fan_out (map (\<lambda>p. (p_name p, p_buildStart p)) plugins)"

definition applyBuildEndHook :: "plugin list \<Rightarrow> rollup_error option \<Rightarrow> string list \<times> hook_result" where
  "applyBuildEndHook plugins err =
     fan_out (map (\<lambda>p. (p_name p, map_option (\<lambda>h. h err) (p_buildEnd p))) plugins)"

section \<open>The build phase\<close>

text \<open>
  What \<^verbatim>\<open>rollup\<close> does between \<^verbatim>\<open>timeStart('BUILD')\<close> and \<^verbatim>\<open>timeEnd('BUILD')\<close>.
  \<open>graph_build\<close> is the outcome of \<^verbatim>\<open>graph.build(...)\<close>, which belongs to the graph: the
  chunks, or a failure.  The record of a run lists the plugins whose \<^verbatim>\<open>buildStart\<close> was
  invoked, the plugins whose \<^verbatim>\<open>buildEnd\<close> was invoked and the argument they were given,
  whether \<^verbatim>\<open>graph.build\<close> was called, and how the promise is settled.

  A \<^verbatim>\<open>buildStart\<close> hook that throws makes \<^verbatim>\<open>applyBuildStartHook(graph)\<close> throw inside
  the \<^verbatim>\<open>try\<close> block, so that \<^verbatim>\<open>Promise.reject(err)\<close> is returned and no \<^verbatim>\<open>then\<close> is
  attached.  A rejection of the promise of \<^verbatim>\<open>applyBuildStartHook\<close> skips
  \<^verbatim>\<open>graph.build\<close> and reaches the rejection handler, as a failure of \<^verbatim>\<open>graph.build\<close>
  does.
\<close>

record 'a build_run =
  br_buildStart :: "string list"
  br_graph_built :: bool
  br_buildEnd :: "(string \<times> rollup_error option) list"
  br_result :: "rollup_error + 'a"

text \<open>The rejection handler: \<^verbatim>\<open>err => applyBuildEndHook(graph, err).then(() => { throw err; })\<close>.\<close>

definition build_failed :: "plugin list \<Rightarrow> rollup_error \<Rightarrow> (string \<times> rollup_error option) list \<times> rollup_error" where
  "build_failed plugins err =
     (case applyBuildEndHook plugins (Some err) of
        (ended, Throws e') \<Rightarrow> (map (\<lambda>l. (l, Some err)) ended, e')
      | (ended, Rejects e') \<Rightarrow> (map (\<lambda>l. (l, Some err)) ended, e')
      | (ended, Fulfils) \<Rightarrow> (map (\<lambda>l. (l, Some err)) ended, err))"

text \<open>The fulfilment handler: \<^verbatim>\<open>chunks => applyBuildEndHook(graph).then(() => chunks)\<close>.\<close>

definition build_succeeded :: "plugin list \<Rightarrow> 'a \<Rightarrow> (string \<times> rollup_error option) list \<times> (rollup_error + 'a)" where
  "build_succeeded plugins chunks =
     (case applyBuildEndHook plugins None of
        (ended, Throws e') \<Rightarrow> (map (\<lambda>l. (l, None)) ended, Inl e')
      | (ended, Rejects e') \<Rightarrow> (map (\<lambda>l. (l, None)) ended, Inl e')
      | (ended, Fulfils) \<Rightarrow> (map (\<lambda>l. (l, None)) ended, Inr chunks))"

definition build_phase :: "plugin list \<Rightarrow> rollup_error + 'a \<Rightarrow> 'a build_run" where
  "build_phase plugins graph_build =
     (case applyBuildStartHook plugins of
        (started, Throws e) \<Rightarrow>
          \<lparr> br_buildStart = started, br_graph_built = False, br_buildEnd = [], br_result = Inl e \<rparr>
      | (started, Rejects e) \<Rightarrow>
          (case build_failed plugins e of (ended, e') \<Rightarrow>
             \<lparr> br_buildStart = started, br_graph_built = False, br_buildEnd = ended,
               br_result = Inl e' \<rparr>)
      | (started, Fulfils) \<Rightarrow>
          (case graph_build of
             Inl e \<Rightarrow>
               (case build_failed plugins e of (ended, e') \<Rightarrow>
                  \<lparr> br_buildStart = started, br_graph_built = True, br_buildEnd = ended,
                    br_result = Inl e' \<rparr>)
           | Inr chunks \<Rightarrow>
               (case build_succeeded plugins chunks of (ended, r) \<Rightarrow>
                  \<lparr> br_buildStart = started, br_graph_built = True, br_buildEnd = ended,
                    br_result = r \<rparr>)))"

text \<open>The outcomes of the \<^verbatim>\<open>buildEnd\<close> hooks that the plugins have, when given \<open>err\<close>.\<close>

definition buildEnd_outcomes :: "plugin list \<Rightarrow> rollup_error option \<Rightarrow> hook_result list" where
  "buildEnd_outcomes plugins err =
     List.map_filter (\<lambda>p. map_option (\<lambda>h. h err) (p_buildEnd p)) plugins"

definition is_throw :: "hook_result \<Rightarrow> bool" where
  "is_throw r = (case r of Throws e \<Rightarrow> True | _ \<Rightarrow> False)"

text \<open>A plugin that has a name and no hook.\<close>

definition plain_plugin :: "string \<Rightarrow> plugin" where
  "plain_plugin n = \<lparr> p_name = n, p_options = None, p_buildStart = None, p_buildEnd = None,
     p_ongenerate = None, p_onwrite = None, p_generateBundle = None \<rparr>"

section \<open>The collaborators of the generate phase\<close>

text \<open>
  \<^verbatim>\<open>generate\<close> and \<^verbatim>\<open>write\<close> are closures over the normalized input options, the
  graph and the chunks.  What they call and is not defined in \<^verbatim>\<open>rollup/index.ts\<close> (the
  methods of the chunks, \<^verbatim>\<open>createAddons\<close>, \<^verbatim>\<open>optimizeChunks\<close>, \<^verbatim>\<open>commondir\<close>, the path
  and file utilities, the \<^verbatim>\<open>sort\<close> of arrays) is a parameter of the model, collected in
  one record.  The calls
  that return a promise (\<^verbatim>\<open>createAddons\<close>, \<^verbatim>\<open>chunk.render\<close>, \<^verbatim>\<open>writeFile\<close>) may fail;
  the synchronous ones return.  The methods that change a chunk return the changed chunk;
  the two that set its \<^verbatim>\<open>id\<close> return the id.
\<close>

type_synonym addons = jsobj

record env =
  env_inputOptions :: jsobj
  env_plugins :: "plugin list"
  env_mergeOptions :: merge_fn
  createAddons :: "jsobj \<Rightarrow> rollup_error + addons"
  commondir :: "string list \<Rightarrow> string"
  generateInternalExports :: "jsobj \<Rightarrow> chunk \<Rightarrow> chunk"
  getExportMode :: "chunk \<Rightarrow> jsobj \<Rightarrow> string"
  preRender :: "jsobj \<Rightarrow> string \<Rightarrow> chunk \<Rightarrow> chunk"
  optimizeChunks :: "chunk list \<Rightarrow> jsobj \<Rightarrow> jsval \<Rightarrow> string \<Rightarrow> chunk list"
  getImportIds :: "chunk \<Rightarrow> string list"
  getExportNames :: "chunk \<Rightarrow> string list"
  basename :: "jsval \<Rightarrow> string"
  dirname :: "jsval \<Rightarrow> string"
  resolve :: "jsval \<Rightarrow> string \<Rightarrow> string"
  generateIdPreserveModules :: "string \<Rightarrow> chunk \<Rightarrow> string"
  generateId :: "jsval \<Rightarrow> string \<Rightarrow> addons \<Rightarrow> jsobj \<Rightarrow> output_bundle \<Rightarrow> chunk \<Rightarrow> string"
  render :: "jsobj \<Rightarrow> addons \<Rightarrow> chunk \<Rightarrow> rollup_error + (string \<times> source_map option)"
  getAssetFileName :: "asset \<Rightarrow> output_bundle \<Rightarrow> jsval \<Rightarrow> string"
  writeFile :: "string \<Rightarrow> string \<Rightarrow> rollup_error option"
  array_sort :: "(output_file \<Rightarrow> output_file \<Rightarrow> int option) \<Rightarrow> output_file list \<Rightarrow> output_file list"

text \<open>
  What a Build holds and changes over its lifetime: the chunks, the latch \<^verbatim>\<open>optimized\<close>,
  and the asset registry of the graph (a \<^verbatim>\<open>Map\<close>, in insertion order).  Two fields
  record what was done: how many times \<^verbatim>\<open>optimizeChunks\<close> was called, and the warnings
  handed to \<^verbatim>\<open>inputOptions.onwarn\<close>.
\<close>

record build_state =
  bs_chunks :: "chunk list"
  bs_optimized :: bool
  bs_assetsById :: "(string \<times> asset) list"
  bs_optimize_calls :: nat
  bs_warnings :: "warning list"

text \<open>The state of a Build that \<^verbatim>\<open>rollup\<close> has just returned.\<close>

definition new_build :: "chunk list \<Rightarrow> (string \<times> asset) list \<Rightarrow> build_state" where
  "new_build chunks assets =
     \<lparr> bs_chunks = chunks, bs_optimized = False, bs_assetsById = assets,
       bs_optimize_calls = 0, bs_warnings = [] \<rparr>"

section \<open>The asset registry\<close>

text \<open>
  Modelled from the spec: \<^verbatim>\<open>finaliseAsset\<close> of \<^verbatim>\<open>utils/assetHooks\<close>, whose source is
  not part of the files at hand.  The spec has it expand the name template into a file
  name that is unique in the bundle (the parameter \<^const>\<open>getAssetFileName\<close>), assign it
  to the asset and place the asset in the bundle; an asset that has no source fails with
  \<^verbatim>\<open>ASSET_SOURCE_MISSING\<close>.
\<close>

definition finaliseAsset ::
  "env \<Rightarrow> asset \<Rightarrow> output_bundle \<Rightarrow> jsval \<Rightarrow> rollup_error + (asset \<times> output_bundle)" where
  "finaliseAsset env asset outputBundle assetFileNames =
     (case a_source asset of
        None \<Rightarrow> error (Some ''ASSET_SOURCE_MISSING'') (''No source set for asset '' @ a_name asset)
      | Some src \<Rightarrow>
          let fileName = getAssetFileName env asset outputBundle assetFileNames
          in Inr (asset\<lparr> a_fileName := Some fileName \<rparr>,
                  AList.update fileName (OutputAsset fileName src) outputBundle))"

text \<open>
  Modelled from the spec: \<^verbatim>\<open>graph.finaliseAssets\<close>, whose source is not part of the files
  at hand.  The spec has it start a fresh bundle and finalize into it every asset of the
  registry that has a source and no file name yet.
\<close>

fun finaliseAssets ::
  "env \<Rightarrow> jsval \<Rightarrow> (string \<times> asset) list \<Rightarrow> output_bundle \<Rightarrow> (string \<times> asset) list \<times> output_bundle" where
  "finaliseAssets env assetFileNames [] outputBundle = ([], outputBundle)"
| "finaliseAssets env assetFileNames ((assetId, asset) # rest) outputBundle =
     (if a_source asset \<noteq> None \<and> a_fileName asset = None then
        (case finaliseAsset env asset outputBundle assetFileNames of
           Inl e \<Rightarrow>
             (case finaliseAssets env assetFileNames rest outputBundle of
                (rest', b) \<Rightarrow> ((assetId, asset) # rest', b))
         | Inr (asset', b') \<Rightarrow>
             (case finaliseAssets env assetFileNames rest b' of
                (rest', b) \<Rightarrow> ((assetId, asset') # rest', b)))
      else
        (case finaliseAssets env assetFileNames rest outputBundle of
           (rest', b) \<Rightarrow> ((assetId, asset) # rest', b)))"

section \<open>The generate phase\<close>

text \<open>\<^verbatim>\<open>v || 'd'\<close>.\<close>

definition or_default :: "jsval \<Rightarrow> string \<Rightarrow> jsval" where
  "or_default v d = (if truthy v then v else JStr d)"

text \<open>The two checks at the head of \<^verbatim>\<open>generate\<close>, on the normalized output options.\<close>

definition generate_checks :: "chunk list \<Rightarrow> jsobj \<Rightarrow> rollup_error + unit" where
  "generate_checks chunks outputOptions =
     (if is_string (get_prop outputOptions ''file'') \<and> is_string (get_prop outputOptions ''dir'')
      then error (Some ''INVALID_OPTION'')
        ''Build must set either output.file for a single-file build or output.dir when generating multiple chunks.''
      else if length chunks > 1 \<and>
              (get_prop outputOptions ''format'' = JStr ''umd'' \<or>
               get_prop outputOptions ''format'' = JStr ''iife'')
      then error (Some ''INVALID_OPTION'')
        ''UMD and IIFE output formats are not supported for code-splitting builds.''
      else Inr ())"

text \<open>The body of the first loop over the chunks.\<close>

definition prepare_chunk :: "env \<Rightarrow> jsobj \<Rightarrow> chunk \<Rightarrow> chunk" where
  "prepare_chunk env outputOptions chunk =
     (let chunk1 = (if \<not> truthy (get_prop (env_inputOptions env) ''preserveModules'')
                    then generateInternalExports env outputOptions chunk else chunk)
      in if c_isEntryModuleFacade chunk1
         then chunk1\<lparr> c_exportMode := Some (getExportMode env chunk1 outputOptions) \<rparr>
         else chunk1)"

text \<open>
  The two pre-render loops and the optimization pass, which is guarded by the latch:
  \<^verbatim>\<open>if (!optimized && inputOptions.optimizeChunks) { optimizeChunks(...); optimized = true; }\<close>.
\<close>

definition optimize_once :: "env \<Rightarrow> jsobj \<Rightarrow> string \<Rightarrow> build_state \<Rightarrow> build_state" where
  "optimize_once env outputOptions inputBase st =
     (if \<not> bs_optimized st \<and> truthy (get_prop (env_inputOptions env) ''optimizeChunks'')
      then st\<lparr> bs_chunks := optimizeChunks env (bs_chunks st) outputOptions
                    (get_prop (env_inputOptions env) ''chunkGroupingSize'') inputBase,
               bs_optimized := True,
               bs_optimize_calls := Suc (bs_optimize_calls st) \<rparr>
      else st)"

definition pre_render :: "env \<Rightarrow> jsobj \<Rightarrow> string \<Rightarrow> build_state \<Rightarrow> build_state" where
  "pre_render env outputOptions inputBase st =
     optimize_once env outputOptions inputBase
       (st\<lparr> bs_chunks := map (preRender env outputOptions inputBase)
                            (map (prepare_chunk env outputOptions) (bs_chunks st)) \<rparr>)"

text \<open>The naming loop: the id of one chunk, and its skeleton entry in the bundle.\<close>

definition chunk_file_name ::
  "env \<Rightarrow> jsobj \<Rightarrow> addons \<Rightarrow> string \<Rightarrow> output_bundle \<Rightarrow> chunk \<Rightarrow> string" where
  "chunk_file_name env outputOptions addons inputBase outputBundle chunk =
     (if truthy (get_prop outputOptions ''file'')
      then basename env (get_prop outputOptions ''file'')
      else if truthy (get_prop (env_inputOptions env) ''preserveModules'')
      then generateIdPreserveModules env inputBase chunk
      else if c_isEntryModuleFacade chunk
      then generateId env (or_default (get_prop outputOptions ''entryFileNames'') ''[name].js'')
             ''output.entryFileNames'' addons outputOptions outputBundle chunk
      else generateId env (or_default (get_prop outputOptions ''chunkFileNames'') ''[name]-[hash].js'')
             ''output.chunkFileNames'' addons outputOptions outputBundle chunk)"

fun name_chunks ::
  "env \<Rightarrow> jsobj \<Rightarrow> addons \<Rightarrow> string \<Rightarrow> chunk list \<Rightarrow> output_bundle \<Rightarrow> chunk list \<times> output_bundle" where
  "name_chunks env outputOptions addons inputBase [] outputBundle = ([], outputBundle)"
| "name_chunks env outputOptions addons inputBase (chunk # chunks) outputBundle =
     (let imports = getImportIds env chunk;
          exports = getExportNames env chunk;
          modules = c_renderedModules chunk;
          chunkId = chunk_file_name env outputOptions addons inputBase outputBundle chunk;
          entry = OutputChunk chunkId (c_entryModule chunk \<noteq> None) imports exports modules None None
      in case name_chunks env outputOptions addons inputBase chunks
                (AList.update chunkId entry outputBundle) of
           (named, b) \<Rightarrow> (chunk\<lparr> c_id := Some chunkId \<rparr> # named, b))"

text \<open>
  Rendering.  \<^verbatim>\<open>outputChunk.code = rendered.code; outputChunk.map = rendered.map\<close> on the
  entry \<^verbatim>\<open>outputBundle[chunkId]\<close>, which the naming loop has made a chunk.
\<close>

fun set_rendered :: "string \<times> source_map option \<Rightarrow> output_file \<Rightarrow> output_file" where
  "set_rendered (code, mp) (OutputChunk f e i x m c0 mp0) = OutputChunk f e i x m (Some code) mp"
| "set_rendered r (OutputAsset f s) = OutputAsset f s"

definition hook_failure :: "hook_result \<Rightarrow> rollup_error option" where
  "hook_failure r = (case r of Throws e \<Rightarrow> Some e | Rejects e \<Rightarrow> Some e | Fulfils \<Rightarrow> None)"

definition render_chunk ::
  "env \<Rightarrow> jsobj \<Rightarrow> addons \<Rightarrow> output_bundle \<Rightarrow> chunk \<Rightarrow> rollup_error + output_bundle" where
  "render_chunk env outputOptions addons outputBundle chunk =
     (case render env outputOptions addons chunk of
        Inl e \<Rightarrow> Inl e
      | Inr rendered \<Rightarrow>
          (case c_id chunk of
             None \<Rightarrow> Inl (RollupError None ''Cannot set property 'code' of undefined'')
           | Some chunkId \<Rightarrow>
               (case map_of outputBundle chunkId of
                  None \<Rightarrow> Inl (RollupError None ''Cannot set property 'code' of undefined'')
                | Some skeleton \<Rightarrow>
                    let outputChunk = set_rendered rendered skeleton
                    in (case hook_failure (snd (fan_out
                               (map (\<lambda>p. (p_name p,
                                      map_option (\<lambda>h. h outputOptions outputChunk) (p_ongenerate p)))
                                  (env_plugins env)))) of
                          Some e \<Rightarrow> Inl e
                        | None \<Rightarrow> Inr (AList.update chunkId outputChunk outputBundle)))))"

text \<open>
  \<^verbatim>\<open>Promise.all(chunks.map(chunk => chunk.render(...).then(...)))\<close>.  When several
  chunks fail, the model reports the failure of the first of them.
\<close>

fun render_chunks ::
  "env \<Rightarrow> jsobj \<Rightarrow> addons \<Rightarrow> chunk list \<Rightarrow> output_bundle \<Rightarrow> rollup_error + output_bundle" where
  "render_chunks env outputOptions addons [] outputBundle = Inr outputBundle"
| "render_chunks env outputOptions addons (chunk # chunks) outputBundle =
     (case render_chunk env outputOptions addons outputBundle chunk of
        Inl e \<Rightarrow> Inl e
      | Inr b \<Rightarrow> render_chunks env outputOptions addons chunks b)"

text \<open>
  The \<^verbatim>\<open>generateBundle\<close> hooks, invoked in the order of the plugins on the bundle and on
  \<^verbatim>\<open>assets\<close>, the copy of the registry made for this call.  A hook that throws ends the
  \<^verbatim>\<open>map\<close>.
\<close>

fun invoke_generateBundle ::
  "(jsobj \<Rightarrow> output_bundle \<Rightarrow> (string \<times> asset) list \<Rightarrow> bool \<Rightarrow>
      (output_bundle \<times> (string \<times> asset) list) \<times> hook_result) list \<Rightarrow>
   jsobj \<Rightarrow> bool \<Rightarrow> output_bundle \<Rightarrow> (string \<times> asset) list \<Rightarrow>
   (output_bundle \<times> (string \<times> asset) list) \<times> (rollup_error + hook_result list)" where
  "invoke_generateBundle [] outputOptions isWrite outputBundle assets =
     ((outputBundle, assets), Inr [])"
| "invoke_generateBundle (h # hs) outputOptions isWrite outputBundle assets =
     (case h outputOptions outputBundle assets isWrite of
        ((b, a), Throws e) \<Rightarrow> ((b, a), Inl e)
      | ((b, a), r) \<Rightarrow>
          (case invoke_generateBundle hs outputOptions isWrite b a of
             (ba, Inl e) \<Rightarrow> (ba, Inl e)
           | (ba, Inr rs) \<Rightarrow> (ba, Inr (r # rs))))"

text \<open>
  \<^verbatim>\<open>assets.forEach(asset => { if (asset.fileName === undefined) finaliseAsset(...) })\<close>:
  a failure of \<^verbatim>\<open>finaliseAsset\<close> ends the loop.
\<close>

fun finalise_pending ::
  "env \<Rightarrow> jsval \<Rightarrow> (string \<times> asset) list \<Rightarrow> output_bundle \<Rightarrow>
   (string \<times> asset) list \<times> (rollup_error + output_bundle)" where
  "finalise_pending env assetFileNames [] outputBundle = ([], Inr outputBundle)"
| "finalise_pending env assetFileNames ((assetId, asset) # rest) outputBundle =
     (if a_fileName asset = None then
        (case finaliseAsset env asset outputBundle assetFileNames of
           Inl e \<Rightarrow> ((assetId, asset) # rest, Inl e)
         | Inr (asset', b) \<Rightarrow>
             (case finalise_pending env assetFileNames rest b of
                (rest', r) \<Rightarrow> ((assetId, asset') # rest', r)))
      else
        (case finalise_pending env assetFileNames rest outputBundle of
           (rest', r) \<Rightarrow> ((assetId, asset) # rest', r)))"

text \<open>
  \<^verbatim>\<open>new Map(graph.assetsById)\<close> copies the map and shares the asset objects: what the
  call does to an asset of the registry is done to the registry, and an asset emitted
  during \<^verbatim>\<open>generateBundle\<close> stays in the copy.
\<close>

definition share_assets :: "(string \<times> asset) list \<Rightarrow> (string \<times> asset) list \<Rightarrow> (string \<times> asset) list" where
  "share_assets assetsById assets =
     map (\<lambda>(assetId, asset). (assetId, case map_of assets assetId of None \<Rightarrow> asset | Some a \<Rightarrow> a))
       assetsById"

definition generateBundle_stage ::
  "env \<Rightarrow> jsobj \<Rightarrow> jsval \<Rightarrow> bool \<Rightarrow> build_state \<Rightarrow> output_bundle \<Rightarrow>
   build_state \<times> (rollup_error + output_bundle)" where
  "generateBundle_stage env outputOptions assetFileNames isWrite st outputBundle =
     (let generateBundlePlugins = List.map_filter p_generateBundle (env_plugins env)
      in if length generateBundlePlugins = 0 then (st, Inr outputBundle)
         else
           (case invoke_generateBundle generateBundlePlugins outputOptions isWrite outputBundle
                   (bs_assetsById st) of
              ((b, assets), Inl e) \<Rightarrow>
                (st\<lparr> bs_assetsById := share_assets (bs_assetsById st) assets \<rparr>, Inl e)
            | ((b, assets), Inr rs) \<Rightarrow>
                (case hook_failure (promise_all rs) of
                   Some e \<Rightarrow> (st\<lparr> bs_assetsById := share_assets (bs_assetsById st) assets \<rparr>, Inl e)
                 | None \<Rightarrow>
                     (case finalise_pending env assetFileNames assets b of
                        (assets', r) \<Rightarrow>
                          (st\<lparr> bs_assetsById := share_assets (bs_assetsById st) assets' \<rparr>, r)))))"

text \<open>\<^verbatim>\<open>generate\<close> from \<^verbatim>\<open>timeStart('GENERATE')\<close> on.\<close>

definition generate_bundle ::
  "env \<Rightarrow> build_state \<Rightarrow> jsobj \<Rightarrow> bool \<Rightarrow> build_state \<times> (rollup_error + output_bundle)" where
  "generate_bundle env st outputOptions isWrite =
     (let assetFileNames =
            or_default (get_prop outputOptions ''assetFileNames'') ''assets/[name]-[hash][extname]'';
          finalised = finaliseAssets env assetFileNames (bs_assetsById st) [];
          st1 = st\<lparr> bs_assetsById := fst finalised \<rparr>;
          inputBase = commondir env (List.map_filter c_entryModule (bs_chunks st1))
      in case createAddons env outputOptions of
           Inl e \<Rightarrow> (st1, Inl e)
         | Inr addons \<Rightarrow>
             let st2 = pre_render env outputOptions inputBase st1;
                 named = name_chunks env outputOptions addons inputBase (bs_chunks st2) (snd finalised);
                 st3 = st2\<lparr> bs_chunks := fst named \<rparr>
             in (case render_chunks env outputOptions addons (bs_chunks st3) (snd named) of
                   Inl e \<Rightarrow> (st3, Inl e)
                 | Inr rendered \<Rightarrow>
                     generateBundle_stage env outputOptions assetFileNames isWrite st3 rendered))"

text \<open>
  \<^verbatim>\<open>generate(rawOutputOptions, isWrite)\<close>: the state of the Build after the call, and the
  bundle or the failure.
\<close>

definition generate ::
  "env \<Rightarrow> build_state \<Rightarrow> jsval \<Rightarrow> bool \<Rightarrow> build_state \<times> (rollup_error + output_bundle)" where
  "generate env st rawOutputOptions isWrite =
     (case normalizeOutputOptions (env_mergeOptions env) (env_inputOptions env) rawOutputOptions of
        (warnings, normalized) \<Rightarrow>
          let st0 = st\<lparr> bs_warnings := bs_warnings st @ warnings \<rparr>
          in (case normalized of
                Inl e \<Rightarrow> (st0, Inl e)
              | Inr outputOptions \<Rightarrow>
                  (case generate_checks (bs_chunks st0) outputOptions of
                     Inl e \<Rightarrow> (st0, Inl e)
                   | Inr u \<Rightarrow> generate_bundle env st0 outputOptions isWrite)))"

section \<open>The output of a generate call\<close>

text \<open>
  The comparator handed to \<^verbatim>\<open>sort\<close> in \<^verbatim>\<open>createOutput\<close>.  Its last statement,
  \<^verbatim>\<open>outputFileB.isEntry ? 1 : 0;\<close>, is an expression statement: when neither file is an
  asset and the first is not an entry chunk, the function returns \<^verbatim>\<open>undefined\<close>, which is
  \<open>None\<close> here.
\<close>

definition compare_output :: "output_file \<Rightarrow> output_file \<Rightarrow> int option" where
  "compare_output outputFileA outputFileB =
     (if isOutputAsset outputFileA then Some (if isOutputAsset outputFileB then 0 else 1)
      else if isOutputAsset outputFileB then Some (- 1)
      else if isEntry outputFileA then Some (if isEntry outputFileB then 0 else - 1)
      else None)"

text \<open>
  \<^verbatim>\<open>Array.prototype.sort\<close> converts the value of the comparator to a number, and takes
  \<^verbatim>\<open>NaN\<close>, which \<^verbatim>\<open>undefined\<close> converts to, for \<open>0\<close>.
\<close>

definition sort_order :: "int option \<Rightarrow> int" where
  "sort_order v = (case v of None \<Rightarrow> 0 | Some n \<Rightarrow> n)"


text \<open>
  Such a sort: an insertion sort that moves an element behind those later elements for
  which \<^verbatim>\<open>comparefn(later, element) < 0\<close>.
\<close>

fun insert_by_sign :: "('a \<Rightarrow> 'a \<Rightarrow> int option) \<Rightarrow> 'a \<Rightarrow> 'a list \<Rightarrow> 'a list" where
  "insert_by_sign comparefn element [] = [element]"
| "insert_by_sign comparefn element (later # rest) =
     (if sort_order (comparefn later element) < 0
      then later # insert_by_sign comparefn element rest
      else element # later # rest)"

definition sort_by_sign :: "('a \<Rightarrow> 'a \<Rightarrow> int option) \<Rightarrow> 'a list \<Rightarrow> 'a list" where
  "sort_by_sign comparefn xs = foldr (insert_by_sign comparefn) xs []"

text \<open>
  \<^verbatim>\<open>Object.keys\<close> lists the property names that are array indices first, in ascending
  numeric order, and the other names after them in the order in which they were added.
  An array index is the decimal numeral, without leading zeros, of a number below
  \<open>2\<^sup>3\<^sup>2 - 1\<close>.
\<close>

definition is_digit :: "char \<Rightarrow> bool" where
  "is_digit c = (48 \<le> (of_char c :: nat) \<and> (of_char c :: nat) \<le> 57)"

definition index_value :: "string \<Rightarrow> nat" where
  "index_value s = foldl (\<lambda>n c. 10 * n + (of_char c - 48)) 0 s"

definition is_array_index :: "string \<Rightarrow> bool" where
  "is_array_index s =
     (s \<noteq> [] \<and> list_all is_digit s \<and> (if hd s = CHR ''0'' then s = ''0'' else True) \<and>
      index_value s < 4294967295)"

definition object_entries :: "(string \<times> 'v) list \<Rightarrow> (string \<times> 'v) list" where
  "object_entries obj =
     sort_key (\<lambda>(k, v). index_value k) (filter (\<lambda>(k, v). is_array_index k) obj) @
     filter (\<lambda>(k, v). \<not> is_array_index k) obj"

text \<open>
  \<^verbatim>\<open>createOutput\<close>: the entries of the bundle in the order of \<^verbatim>\<open>Object.keys\<close>, sorted
  by the engine with the comparator.
\<close>

definition createOutput :: "env \<Rightarrow> output_bundle \<Rightarrow> output_file list" where
  "createOutput env outputBundle =
     array_sort env compare_output (map snd (object_entries outputBundle))"


section \<open>Writing the bundle\<close>

text \<open>
  Modelled from the spec: the constant \<^verbatim>\<open>SOURCEMAPPING_URL\<close> of
  \<^verbatim>\<open>utils/sourceMappingURL\<close>, whose source is not part of the files at hand; the spec
  gives the marker as the literal \<^verbatim>\<open>sourceMappingURL\<close>.
\<close>

definition SOURCEMAPPING_URL :: string where
  "SOURCEMAPPING_URL = ''sourceMappingURL''"

text \<open>A string that may be \<^verbatim>\<open>undefined\<close>, as text.\<close>

definition js_text :: "string option \<Rightarrow> string" where
  "js_text s = (case s of None \<Rightarrow> ''undefined'' | Some t \<Rightarrow> t)"

text \<open>
  The first half of \<^verbatim>\<open>writeOutputFile\<close>: the text to write to \<open>filename\<close>, and the
  companion map file and its text when the source map is external.
\<close>

fun source_to_write :: "env \<Rightarrow> jsval \<Rightarrow> string \<Rightarrow> output_file \<Rightarrow> string \<times> (string \<times> string) option" where
  "source_to_write env outputOptions filename (OutputAsset f src) = (src, None)"
| "source_to_write env outputOptions filename (OutputChunk f e i x m code mp) =
     (case mp of
        None \<Rightarrow> (js_text code, None)
      | Some sm \<Rightarrow>
          if \<not> truthy (member outputOptions ''sourcemap'') then (js_text code, None)
          else if member outputOptions ''sourcemap'' = JStr ''inline''
          then (js_text code @ ''//# '' @ SOURCEMAPPING_URL @ ''='' @ sm_toUrl sm @ [char_of (10::nat)],
                None)
          else (js_text code @ ''//# '' @ SOURCEMAPPING_URL @ ''='' @ basename env (JStr f) @ ''.map'' @
                  [char_of (10::nat)],
                Some (filename @ ''.map'', sm_toString sm)))"

text \<open>
  What one call of \<^verbatim>\<open>writeOutputFile\<close> does: the calls of \<^verbatim>\<open>writeFile\<close> in the order in
  which they are made, the files whose writes the returned promise waits for, in the order
  in which it waits for them, the plugins whose \<^verbatim>\<open>onwrite\<close> is invoked, and the failure
  of the promise, if any.  The promise chain is
  \<^verbatim>\<open>writeFile(filename, source).then(() => writeSourceMapPromise).then(() => onwrite hooks)\<close>,
  and \<^verbatim>\<open>writeSourceMapPromise\<close> was created before it.
\<close>

record output_write =
  ow_writes :: "(string \<times> string) list"
  ow_awaits :: "string list"
  ow_onwrite :: "string list"
  ow_failure :: "rollup_error option"

definition writeOutputFile :: "env \<Rightarrow> output_file \<Rightarrow> jsval \<Rightarrow> output_write" where
  "writeOutputFile env outputFile outputOptions =
     (let filename = resolve env
            (if truthy (member outputOptions ''dir'') then member outputOptions ''dir''
             else JStr (dirname env (member outputOptions ''file'')))
            (fileName outputFile);
          to_write = source_to_write env outputOptions filename outputFile;
          writeSourceMapPromise = map_option (\<lambda>(path, text). writeFile env path text) (snd to_write);
          writeCode = writeFile env filename (fst to_write);
          hooks =
            (case writeCode of
               Some e \<Rightarrow> ([], Some e)
             | None \<Rightarrow>
                 (case writeSourceMapPromise of
                    Some (Some e) \<Rightarrow> ([], Some e)
                  | _ \<Rightarrow>
                      if isOutputAsset outputFile then ([], None)
                      else
                        (case fan_out (map (\<lambda>p. (p_name p,
                                  map_option (\<lambda>h. h outputOptions outputFile) (p_onwrite p)))
                                (env_plugins env)) of
                           (called, r) \<Rightarrow> (called, hook_failure r))))
      in \<lparr> ow_writes = (case snd to_write of None \<Rightarrow> [] | Some w \<Rightarrow> [w]) @ [(filename, fst to_write)],
           ow_awaits = filename # (case snd to_write of None \<Rightarrow> [] | Some w \<Rightarrow> [fst w]),
           ow_onwrite = fst hooks,
           ow_failure = snd hooks \<rparr>)"

text \<open>The checks of \<^verbatim>\<open>write\<close> on the bundle that \<^verbatim>\<open>generate\<close> returned.\<close>

definition write_checks :: "env \<Rightarrow> jsval \<Rightarrow> output_bundle \<Rightarrow> rollup_error + unit" where
  "write_checks env outputOptions result =
     (if length (map fst result) > 1 then
        (if truthy (member outputOptions ''sourcemapFile'')
         then error (Some ''INVALID_OPTION'') ''\"sourcemapFile\" is only supported for single-file builds.''
         else if is_string (member outputOptions ''file'')
         then error (Some ''INVALID_OPTION'')
           (''When building multiple chunks, the output.dir option must be used, not output.file.'' @
            (if \<not> is_string (get_prop (env_inputOptions env) ''input'') \<or>
                get_prop (env_inputOptions env) ''inlineDynamicImports'' = JBool True
             then []
             else '' To inline dynamic imports set the inlineDynamicImports: true option.''))
         else Inr ())
      else Inr ())"

text \<open>
  \<^verbatim>\<open>write(outputOptions)\<close>: the state of the Build after the call, the files written
  and the \<^verbatim>\<open>onwrite\<close> hooks invoked for each entry of the bundle, and the output or the
  failure.  When several entries fail to be written, the model reports the failure of the
  first of them.
\<close>

record write_run =
  wr_state :: build_state
  wr_files :: "output_write list"
  wr_result :: "rollup_error + output_file list"

definition "write" :: "env \<Rightarrow> build_state \<Rightarrow> jsval \<Rightarrow> write_run" where
  "write env st outputOptions =
     (if \<not> truthy outputOptions \<or>
         (\<not> truthy (member outputOptions ''dir'') \<and> \<not> truthy (member outputOptions ''file''))
      then \<lparr> wr_state = st, wr_files = [],
             wr_result = error (Some ''MISSING_OPTION'')
               ''You must specify output.file or output.dir for the build.'' \<rparr>
      else
        (case generate env st outputOptions True of
           (st', Inl e) \<Rightarrow> \<lparr> wr_state = st', wr_files = [], wr_result = Inl e \<rparr>
         | (st', Inr result) \<Rightarrow>
             (case write_checks env outputOptions result of
                Inl e \<Rightarrow> \<lparr> wr_state = st', wr_files = [], wr_result = Inl e \<rparr>
              | Inr u \<Rightarrow>
                  let written = map (\<lambda>(chunkId, outputFile). writeOutputFile env outputFile outputOptions)
                                  (object_entries result)
                  in \<lparr> wr_state = st', wr_files = written,
                       wr_result =
                         (case List.map_filter ow_failure written of
                            e # es \<Rightarrow> Inl e
                          | [] \<Rightarrow> Inr (createOutput env result)) \<rparr>)))"

text \<open>
  The calls made on a Build handle, one after the other, and the state they leave.  The
  handle's \<^verbatim>\<open>generate\<close> is \<^verbatim>\<open>generate(rawOutputOptions, false)\<close> followed by
  \<^verbatim>\<open>createOutput\<close>.
\<close>

datatype build_call = Generate jsval | Write jsval

fun run_calls :: "env \<Rightarrow> build_state \<Rightarrow> build_call list \<Rightarrow> build_state" where
  "run_calls env st [] = st"
| "run_calls env st (Generate rawOutputOptions # calls) =
     run_calls env (fst (generate env st rawOutputOptions False)) calls"
| "run_calls env st (Write outputOptions # calls) =
     run_calls env (wr_state (write env st outputOptions)) calls"

section \<open>The synchronous blocks of the generate phase\<close>

text \<open>
  Two calls on one Build may be under way together: the steps of one run between the steps
  of the other, each step being a stretch of code between two points at which a promise is
  waited for.  Here are the steps of \<^verbatim>\<open>generate\<close> that change what the Build holds, each
  with the values of the call it belongs to.  They are finer than the stretches of the
  code: the two pre-render loops, the optimization pass and the test and setting of its
  latch are in one step, as they are in one stretch of the code.
\<close>

datatype sync_block =
    WarnBlock "warning list"
  | FinaliseAssetsBlock jsval
  | PreRenderBlock jsobj string
  | NameChunksBlock jsobj addons string output_bundle
  | GenerateBundleBlock jsobj jsval bool output_bundle

fun run_block :: "env \<Rightarrow> sync_block \<Rightarrow> build_state \<Rightarrow> build_state" where
  "run_block env (WarnBlock warnings) st = st\<lparr> bs_warnings := bs_warnings st @ warnings \<rparr>"
| "run_block env (FinaliseAssetsBlock assetFileNames) st =
     st\<lparr> bs_assetsById := fst (finaliseAssets env assetFileNames (bs_assetsById st) []) \<rparr>"
| "run_block env (PreRenderBlock outputOptions inputBase) st =
     pre_render env outputOptions inputBase st"
| "run_block env (NameChunksBlock outputOptions addons inputBase outputBundle) st =
     st\<lparr> bs_chunks := fst (name_chunks env outputOptions addons inputBase (bs_chunks st) outputBundle) \<rparr>"
| "run_block env (GenerateBundleBlock outputOptions assetFileNames isWrite outputBundle) st =
     fst (generateBundle_stage env outputOptions assetFileNames isWrite st outputBundle)"

text \<open>
  The latch and the count agree: \<^verbatim>\<open>optimizeChunks\<close> has been called once if
  \<^verbatim>\<open>optimized\<close> is set, and never otherwise.
\<close>

definition latch_ok :: "build_state \<Rightarrow> bool" where
  "latch_ok st = (bs_optimize_calls st = (if bs_optimized st then 1 else 0))"

section \<open>The order of the file writes\<close>

text \<open>
  \<^verbatim>\<open>writeFile\<close> starts a write and returns at once; the write is completed later by the
  file system, and the writes that are under way together are completed in an order that
  the program does not choose.  The events of one call of \<^verbatim>\<open>writeOutputFile\<close> whose
  writes succeed: a write is issued, a write is completed, an \<^verbatim>\<open>onwrite\<close> hook is
  invoked, the returned promise is fulfilled.
\<close>

datatype write_event = Issued string | Completed string | OnWrite string | Settled

text \<open>
  The promise chain waits for the files of \<open>awaiting\<close> one after the other: what it still
  waits for, once the writes of \<open>finished\<close> are completed.
\<close>

fun still_awaiting :: "string list \<Rightarrow> string list \<Rightarrow> string list" where
  "still_awaiting [] finished = []"
| "still_awaiting (w # ws) finished =
     (if w \<in> set finished then still_awaiting ws finished else w # ws)"

text \<open>
  The writes are completed in the order \<open>order\<close>.  At the completion after which the
  chain has nothing left to wait for, the events \<open>finish\<close> follow.
\<close>

fun completions :: "string list \<Rightarrow> string list \<Rightarrow> write_event list \<Rightarrow> string list \<Rightarrow> write_event list" where
  "completions awaiting finished finish [] = []"
| "completions awaiting finished finish (p # order) =
     Completed p #
     (if awaiting \<noteq> [] \<and> still_awaiting awaiting (p # finished) = [] then finish else []) @
     completions (still_awaiting awaiting (p # finished)) (p # finished) finish order"

text \<open>
  The events of a call, given the order in which the file system completes the writes it
  issued: the writes are issued during the call itself, in the order of \<^const>\<open>ow_writes\<close>;
  the hooks and the fulfilment come when the chain has waited for the files of
  \<^const>\<open>ow_awaits\<close>.
\<close>

definition timeline :: "output_write \<Rightarrow> string list \<Rightarrow> write_event list" where
  "timeline w order =
     map (\<lambda>(path, text). Issued path) (ow_writes w) @
     completions (ow_awaits w) [] (map OnWrite (ow_onwrite w) @ [Settled]) order"

section \<open>A concrete build\<close>

text \<open>
  Collaborators that do the least, for evaluating the model on concrete builds: no addons,
  chunks that are rendered to a fixed text without a source map, a chunk named after its
  entry module, an asset named after its name, file names without directories, a file
  system on which every write succeeds, and the sort \<^const>\<open>sort_by_sign\<close>.
\<close>

definition js_string :: "jsval \<Rightarrow> string" where
  "js_string v = (case v of JStr s \<Rightarrow> s | _ \<Rightarrow> [])"

definition simple_env :: "jsobj \<Rightarrow> plugin list \<Rightarrow> env" where
  "simple_env inputOptions plugins =
     \<lparr> env_inputOptions = inputOptions,
       env_plugins = plugins,
       env_mergeOptions = pass_through_merge,
       createAddons = (\<lambda>outputOptions. Inr []),
       commondir = (\<lambda>ids. []),
       generateInternalExports = (\<lambda>outputOptions chunk. chunk),
       getExportMode = (\<lambda>chunk outputOptions. ''auto''),
       preRender = (\<lambda>outputOptions inputBase chunk. chunk),
       optimizeChunks = (\<lambda>chunks outputOptions chunkGroupingSize inputBase. chunks),
       getImportIds = (\<lambda>chunk. []),
       getExportNames = (\<lambda>chunk. []),
       basename = js_string,
       dirname = (\<lambda>path. ''.''),
       resolve = (\<lambda>dir file. js_string dir @ ''/'' @ file),
       generateIdPreserveModules = (\<lambda>inputBase chunk. js_text (c_entryModule chunk)),
       generateId = (\<lambda>pattern patternName addons outputOptions outputBundle chunk.
                       js_text (c_entryModule chunk)),
       render = (\<lambda>outputOptions addons chunk. Inr (''export {};'', None)),
       getAssetFileName = (\<lambda>asset outputBundle assetFileNames. ''assets/'' @ a_name asset),
       writeFile = (\<lambda>path text. None),
       array_sort = sort_by_sign \<rparr>"

text \<open>Two \<^verbatim>\<open>buildEnd\<close> hooks: one returns a promise rejected with \<open>e\<close>, one returns nothing.\<close>

definition buildEnd_rejects :: "rollup_error \<Rightarrow> rollup_error option \<Rightarrow> hook_result" where
  "buildEnd_rejects e err = Rejects e"

definition buildEnd_returns :: "rollup_error option \<Rightarrow> hook_result" where
  "buildEnd_returns err = Fulfils"

text \<open>A chunk as the graph hands it over: not named yet, a facade of its entry module if it has one.\<close>

definition simple_chunk :: "string option \<Rightarrow> chunk" where
  "simple_chunk entryModule =
     \<lparr> c_id = None, c_entryModule = entryModule, c_isEntryModuleFacade = (entryModule \<noteq> None),
       c_exportMode = None, c_renderedModules = [] \<rparr>"

section \<open>Properties of option normalization\<close>

lemma map_of_fold_update:
  "distinct (map fst ps) \<Longrightarrow>
   map_of (fold (\<lambda>(k, x). AList.update k x) ps acc) = map_of acc ++ map_of ps"
proof (induction ps arbitrary: acc)
  case Nil
  then show ?case by simp
next
  case (Cons p ps)
  obtain k x where p: "p = (k, x)" by (cases p)
  from Cons.prems p have nk: "k \<notin> fst ` set ps" and d: "distinct (map fst ps)" by auto
  have none: "map_of ps k = None" using nk by (simp add: map_of_eq_None_iff)
  have swap: "(map_of acc)(k \<mapsto> x) ++ map_of ps = map_of acc ++ (map_of ps)(k \<mapsto> x)"
  proof
    fix a show "((map_of acc)(k \<mapsto> x) ++ map_of ps) a = (map_of acc ++ (map_of ps)(k \<mapsto> x)) a"
      using none by (cases "a = k") (auto simp: map_add_def split: option.splits)
  qed
  have "map_of (fold (\<lambda>(k, x). AList.update k x) (p # ps) acc)
        = map_of (fold (\<lambda>(k, x). AList.update k x) ps (AList.update k x acc))"
    by (simp add: p)
  also have "\<dots> = map_of (AList.update k x acc) ++ map_of ps" by (rule Cons.IH [OF d])
  also have "\<dots> = (map_of acc)(k \<mapsto> x) ++ map_of ps" by (simp add: update_conv')
  also have "\<dots> = map_of acc ++ (map_of ps)(k \<mapsto> x)" by (rule swap)
  also have "\<dots> = map_of acc ++ map_of (p # ps)" by (simp add: p)
  finally show ?case .
qed

lemma map_of_spread:
  "wf_obj (own_props v) \<Longrightarrow> map_of (spread acc v) = map_of acc ++ map_of (own_props v)"
  unfolding spread_def wf_obj_def by (rule map_of_fold_update)

lemma map_of_consolidated_output:
  assumes "wf_obj (own_props rawOutputOptions)"
    and "wf_obj (own_props (member rawOutputOptions ''output''))"
    and "wf_obj (own_props (get_prop inputOptions ''output''))"
  shows "map_of (consolidated_output inputOptions rawOutputOptions) =
     map_of (own_props rawOutputOptions) ++ map_of (own_props (member rawOutputOptions ''output''))
       ++ map_of (own_props (get_prop inputOptions ''output''))"
  using assms by (simp add: consolidated_output_def map_of_spread)

lemma get_prop_map_add:
  assumes "map_of c = m ++ map_of b"
  shows "get_prop c k =
     (if k \<in> fst ` set b then get_prop b k else case m k of None \<Rightarrow> JUndefined | Some v \<Rightarrow> v)"
proof (cases "map_of b k")
  case None
  then have "k \<notin> fst ` set b" by (simp add: map_of_eq_None_iff)
  with None show ?thesis using assms by (simp add: get_prop_def map_add_def)
next
  case (Some v)
  then have "k \<in> fst ` set b" by (metis map_of_eq_None_iff option.distinct(1))
  with Some show ?thesis using assms by (simp add: get_prop_def map_add_def)
qed

text \<open>
  C1, as the specification states it, fails: a top-level field of the raw output options
  does not take precedence over the input-level \<^verbatim>\<open>output\<close>.  With raw output options
  \<^verbatim>\<open>{ format: 'cjs' }\<close> and input options whose \<^verbatim>\<open>output\<close> is \<^verbatim>\<open>{ format: 'es' }\<close>, the
  merged \<^verbatim>\<open>output\<close> has the format \<^verbatim>\<open>'es'\<close> of the input level, not \<^verbatim>\<open>'cjs'\<close>.
\<close>

theorem output_merge_input_level_wins:
  "get_prop (consolidated_output [(''output'', JObj [(''format'', JStr ''es'')])]
               (JObj [(''format'', JStr ''cjs'')])) ''format'' = JStr ''es'' \<and>
   get_prop (consolidated_output [(''output'', JObj [(''format'', JStr ''es'')])]
               (JObj [(''format'', JStr ''cjs'')])) ''format'' \<noteq> JStr ''cjs''"
  by (simp add: consolidated_output_def spread_def get_prop_def)

text \<open>
  C1, amended: in the \<^verbatim>\<open>output\<close> object that \<^verbatim>\<open>normalizeOutputOptions\<close> hands to the
  option merger, a key of the input-level \<^verbatim>\<open>output\<close> has the input-level value; any other
  key of the nested \<^verbatim>\<open>.output\<close> of the raw output options has the nested value; and any
  remaining key has the value of the top-level field of the raw output options.  So the
  precedence is, highest first: input-level \<^verbatim>\<open>output\<close>, nested \<^verbatim>\<open>.output\<close>, top-level
  fields.  The three sources are objects, each with every property name once.
\<close>

theorem output_merge_precedence:
  assumes "wf_obj (own_props rawOutputOptions)"
    and "wf_obj (own_props (member rawOutputOptions ''output''))"
    and "wf_obj (own_props (get_prop inputOptions ''output''))"
  shows "get_prop (consolidated_output inputOptions rawOutputOptions) k =
     (if k \<in> fst ` set (own_props (get_prop inputOptions ''output''))
      then get_prop (own_props (get_prop inputOptions ''output'')) k
      else if k \<in> fst ` set (own_props (member rawOutputOptions ''output''))
      then get_prop (own_props (member rawOutputOptions ''output'')) k
      else get_prop (own_props rawOutputOptions) k)"
proof -
  let ?top = "own_props rawOutputOptions"
  let ?nested = "own_props (member rawOutputOptions ''output'')"
  let ?inp = "own_props (get_prop inputOptions ''output'')"
  have "map_of (consolidated_output inputOptions rawOutputOptions) =
      (map_of ?top ++ map_of ?nested) ++ map_of ?inp"
    by (rule map_of_consolidated_output [OF assms])
  then have "get_prop (consolidated_output inputOptions rawOutputOptions) k =
      (if k \<in> fst ` set ?inp then get_prop ?inp k
       else case (map_of ?top ++ map_of ?nested) k of None \<Rightarrow> JUndefined | Some v \<Rightarrow> v)"
    by (rule get_prop_map_add)
  moreover have "(case (map_of ?top ++ map_of ?nested) k of None \<Rightarrow> JUndefined | Some v \<Rightarrow> v) =
      (if k \<in> fst ` set ?nested then get_prop ?nested k else get_prop ?top k)"
    using get_prop_map_add [of "AList.merge ?top ?nested" "map_of ?top" ?nested k]
    by (simp add: get_prop_def [of "AList.merge ?top ?nested"] get_prop_def [of ?top] merge_conv')
  ultimately show ?thesis by simp
qed

theorem output_merge_precedence_witness:
  "get_prop (consolidated_output
       [(''output'', JObj [(''format'', JStr ''es'')])]
       (JObj [(''format'', JStr ''cjs''), (''file'', JStr ''a.js''), (''name'', JStr ''top''),
              (''output'', JObj [(''format'', JStr ''umd''), (''file'', JStr ''b.js'')])]))
     ''format'' = JStr ''es'' \<and>
   get_prop (consolidated_output
       [(''output'', JObj [(''format'', JStr ''es'')])]
       (JObj [(''format'', JStr ''cjs''), (''file'', JStr ''a.js''), (''name'', JStr ''top''),
              (''output'', JObj [(''format'', JStr ''umd''), (''file'', JStr ''b.js'')])]))
     ''file'' = JStr ''b.js'' \<and>
   get_prop (consolidated_output
       [(''output'', JObj [(''format'', JStr ''es'')])]
       (JObj [(''format'', JStr ''cjs''), (''file'', JStr ''a.js''), (''name'', JStr ''top''),
              (''output'', JObj [(''format'', JStr ''umd''), (''file'', JStr ''b.js'')])]))
     ''name'' = JStr ''top''"
  using output_merge_precedence
    [of "JObj [(''format'', JStr ''cjs''), (''file'', JStr ''a.js''), (''name'', JStr ''top''),
               (''output'', JObj [(''format'', JStr ''umd''), (''file'', JStr ''b.js'')])]"
        "[(''output'', JObj [(''format'', JStr ''es'')])]" "''format''"]
    output_merge_precedence
    [of "JObj [(''format'', JStr ''cjs''), (''file'', JStr ''a.js''), (''name'', JStr ''top''),
               (''output'', JObj [(''format'', JStr ''umd''), (''file'', JStr ''b.js'')])]"
        "[(''output'', JObj [(''format'', JStr ''es'')])]" "''file''"]
    output_merge_precedence
    [of "JObj [(''format'', JStr ''cjs''), (''file'', JStr ''a.js''), (''name'', JStr ''top''),
               (''output'', JObj [(''format'', JStr ''umd''), (''file'', JStr ''b.js'')])]"
        "[(''output'', JObj [(''format'', JStr ''es'')])]" "''name''"]
  by (simp add: wf_obj_def get_prop_def)

text \<open>
  C4: with \<^verbatim>\<open>preserveModules\<close> and \<^verbatim>\<open>inlineDynamicImports\<close> both set (and a single
  input, no \<^verbatim>\<open>manualChunks\<close>, no \<^verbatim>\<open>optimizeChunks\<close>), \<^verbatim>\<open>getInputOptions\<close> returns the
  options and does not fail: the first branch of the \<^verbatim>\<open>if\<close> is taken, and the check
  \<^verbatim>\<open>preserveModules does not support the inlineDynamicImports option\<close> sits in the
  \<^verbatim>\<open>else\<close> branch, where \<^verbatim>\<open>inlineDynamicImports\<close> is never set.
\<close>

theorem preserveModules_with_inlineDynamicImports_accepted:
  "snd (getInputOptions pass_through_merge []
          (JObj [(''input'', JStr ''a.js''), (''preserveModules'', JBool True),
                 (''inlineDynamicImports'', JBool True)]))
   = Inr [(''input'', JStr ''a.js''), (''preserveModules'', JBool True),
          (''inlineDynamicImports'', JBool True)]"
  by (simp add: getInputOptions_def pass_through_merge_def option_error_set_def
      checkInputOptions_def check_chunking_options_def get_prop_def)

text \<open>
  The other two combinations are refused whenever \<^verbatim>\<open>inlineDynamicImports\<close> is not set,
  and also when it is (by the first branch).
\<close>

lemma preserveModules_with_chunk_options_refused:
  assumes "truthy (get_prop inputOptions ''preserveModules'')"
    and "truthy (get_prop inputOptions ''manualChunks'') \<or>
         truthy (get_prop inputOptions ''optimizeChunks'')"
  shows "fails_with (check_chunking_options inputOptions) (Some ''INVALID_OPTION'')"
  using assms by (auto simp: check_chunking_options_def fails_with_def error_def)

text \<open>
  C7, as the specification states it, fails: the failure for a legacy option at top level
  is \<^verbatim>\<open>throw new Error(...)\<close>, and does not carry the code
  \<^verbatim>\<open>UNSUPPORTED_LEGACY_OPTION\<close>.
\<close>

theorem legacy_option_failure_has_no_code:
  "\<not> fails_with (snd (getInputOptions pass_through_merge []
                        (JObj [(''input'', JStr ''a.js''), (''load'', JFun ''load'')])))
       (Some ''UNSUPPORTED_LEGACY_OPTION'')"
  by (simp add: getInputOptions_def pass_through_merge_def option_error_set_def
      checkInputOptions_def get_prop_def fails_with_def)

text \<open>Nor does the failure for the format \<^verbatim>\<open>"es6"\<close> carry \<^verbatim>\<open>FORMAT_DEPRECATED\<close>.\<close>

lemma es6_failure_has_no_FORMAT_DEPRECATED_code:
  "\<not> fails_with (snd (normalizeOutputOptions pass_through_merge []
                        (JObj [(''format'', JStr ''es6'')])))
       (Some ''FORMAT_DEPRECATED'')"
  by (simp add: normalizeOutputOptions_def pass_through_merge_def option_error_set_def
      consolidatedOutputOptions_def consolidated_output_def spread_def
      checkOutputOptions_def get_prop_def fails_with_def error_def)

lemma normalizeOutputOptions_failure_code:
  "snd (normalizeOutputOptions mergeOptions inputOptions rawOutputOptions) = Inl e \<Longrightarrow>
   err_code e = None"
  by (auto simp: normalizeOutputOptions_def Let_def checkOutputOptions_def error_def
      split: if_splits list.splits sum.splits)

text \<open>
  C7, amended: each of the four option-validation failures is raised, and the value raised
  carries a message and no code.  \<^verbatim>\<open>getInputOptions\<close> fails so when one of
  \<^verbatim>\<open>transform\<close>, \<^verbatim>\<open>load\<close>, \<^verbatim>\<open>resolveId\<close>, \<^verbatim>\<open>resolveExternal\<close> is set in the merged input
  options; \<^verbatim>\<open>normalizeOutputOptions\<close> fails so when the merged output options have the
  format \<^verbatim>\<open>"es6"\<close>, have no format, or have both \<^verbatim>\<open>amd\<close> and \<^verbatim>\<open>moduleId\<close>.
\<close>

theorem option_validation_failures_carry_no_code:
  "(truthy rawInputOptions \<and>
    (truthy (get_prop (mo_inputOptions (mergeOptions rawInputOptions DeprecateInput)) ''transform'') \<or>
     truthy (get_prop (mo_inputOptions (mergeOptions rawInputOptions DeprecateInput)) ''load'') \<or>
     truthy (get_prop (mo_inputOptions (mergeOptions rawInputOptions DeprecateInput)) ''resolveId'') \<or>
     truthy (get_prop (mo_inputOptions (mergeOptions rawInputOptions DeprecateInput)) ''resolveExternal''))
    \<longrightarrow> fails_with (snd (getInputOptions mergeOptions hooks rawInputOptions)) None) \<and>
   (mo_outputOptions (mergeOptions (consolidatedOutputOptions inputOptions rawOutputOptions)
        DeprecateOutput) = outputOptions # rest \<and>
    (get_prop outputOptions ''format'' = JStr ''es6'' \<or>
     \<not> truthy (get_prop outputOptions ''format'') \<or>
     (truthy (get_prop outputOptions ''amd'') \<and> truthy (get_prop outputOptions ''moduleId'')))
    \<longrightarrow> fails_with (snd (normalizeOutputOptions mergeOptions inputOptions rawOutputOptions)) None)"
proof (intro conjI impI)
  assume "truthy rawInputOptions \<and>
    (truthy (get_prop (mo_inputOptions (mergeOptions rawInputOptions DeprecateInput)) ''transform'') \<or>
     truthy (get_prop (mo_inputOptions (mergeOptions rawInputOptions DeprecateInput)) ''load'') \<or>
     truthy (get_prop (mo_inputOptions (mergeOptions rawInputOptions DeprecateInput)) ''resolveId'') \<or>
     truthy (get_prop (mo_inputOptions (mergeOptions rawInputOptions DeprecateInput)) ''resolveExternal''))"
  then show "fails_with (snd (getInputOptions mergeOptions hooks rawInputOptions)) None"
    by (auto simp: getInputOptions_def Let_def checkInputOptions_def fails_with_def)
next
  assume a: "mo_outputOptions (mergeOptions (consolidatedOutputOptions inputOptions rawOutputOptions)
        DeprecateOutput) = outputOptions # rest \<and>
    (get_prop outputOptions ''format'' = JStr ''es6'' \<or>
     \<not> truthy (get_prop outputOptions ''format'') \<or>
     (truthy (get_prop outputOptions ''amd'') \<and> truthy (get_prop outputOptions ''moduleId'')))"
  then have "\<exists>e. checkOutputOptions outputOptions = Inl e"
    by (auto simp: checkOutputOptions_def error_def)
  with a have "\<exists>e. snd (normalizeOutputOptions mergeOptions inputOptions rawOutputOptions) = Inl e"
    by (auto simp: normalizeOutputOptions_def Let_def)
  then show "fails_with (snd (normalizeOutputOptions mergeOptions inputOptions rawOutputOptions)) None"
    by (auto simp: fails_with_def dest: normalizeOutputOptions_failure_code)
qed

theorem option_validation_failures_carry_no_code_witness:
  "fails_with (snd (getInputOptions pass_through_merge []
                      (JObj [(''input'', JStr ''a.js''), (''load'', JFun ''load'')]))) None \<and>
   fails_with (snd (normalizeOutputOptions pass_through_merge []
                      (JObj [(''format'', JStr ''amd''), (''amd'', JObj [(''id'', JStr ''m'')]),
                             (''moduleId'', JStr ''m'')]))) None"
  using option_validation_failures_carry_no_code
    [where rawInputOptions = "JObj [(''input'', JStr ''a.js''), (''load'', JFun ''load'')]"
       and mergeOptions = pass_through_merge and hooks = "[]" and inputOptions = "[]"
       and rawOutputOptions =
         "JObj [(''format'', JStr ''amd''), (''amd'', JObj [(''id'', JStr ''m'')]),
                (''moduleId'', JStr ''m'')]"
       and outputOptions =
         "[(''format'', JStr ''amd''), (''amd'', JObj [(''id'', JStr ''m'')]),
           (''moduleId'', JStr ''m'')]"
       and rest = "[]"]
  by (simp add: pass_through_merge_def consolidatedOutputOptions_def consolidated_output_def
      spread_def get_prop_def)

section \<open>Properties of the build phase\<close>

lemma invoke_all_no_throw:
  "\<forall>r \<in> set (List.map_filter snd hs). \<not> is_throw r \<Longrightarrow>
   invoke_all hs = (map fst (filter (\<lambda>h. snd h \<noteq> None) hs), Inr (List.map_filter snd hs))"
  by (induction hs rule: invoke_all.induct) (simp_all add: map_filter_simps is_throw_def)

lemma invoke_all_throw:
  "invoke_all hs = (ls, Inl e) \<Longrightarrow> Throws e \<in> set (List.map_filter snd hs)"
  by (induction hs arbitrary: ls rule: invoke_all.induct)
     (auto simp: map_filter_simps split: prod.splits sum.splits)

lemma invoke_all_returns:
  "invoke_all hs = (ls, Inr rs) \<Longrightarrow> rs = List.map_filter snd hs"
  by (induction hs arbitrary: ls rs rule: invoke_all.induct)
     (auto simp: map_filter_simps split: prod.splits sum.splits)

lemma invoke_all_returns_no_throw:
  "invoke_all hs = (ls, Inr rs) \<Longrightarrow> \<forall>r \<in> set rs. \<not> is_throw r"
  by (induction hs arbitrary: ls rs rule: invoke_all.induct)
     (auto simp: is_throw_def split: prod.splits sum.splits)

lemma promise_all_Fulfils: "\<forall>r \<in> set rs. r = Fulfils \<Longrightarrow> promise_all rs = Fulfils"
  by (induction rs rule: promise_all.induct) auto

lemma promise_all_Rejects: "promise_all rs = Rejects e \<Longrightarrow> Rejects e \<in> set rs"
  by (induction rs rule: promise_all.induct) auto

lemma promise_all_not_Throws: "\<forall>r \<in> set rs. \<not> is_throw r \<Longrightarrow> promise_all rs \<noteq> Throws e"
  by (induction rs rule: promise_all.induct) (auto simp: is_throw_def)

lemma promise_all_some_fails:
  "\<forall>r \<in> set rs. \<not> is_throw r \<Longrightarrow> \<exists>r \<in> set rs. r \<noteq> Fulfils \<Longrightarrow> \<exists>e. promise_all rs = Rejects e"
  by (induction rs rule: promise_all.induct) (auto simp: is_throw_def)


lemma buildEnd_hooks_outcomes:
  "List.map_filter snd (map (\<lambda>p. (p_name p, map_option (\<lambda>h. h err) (p_buildEnd p))) plugins)
   = buildEnd_outcomes plugins err"
  by (induction plugins) (auto simp: buildEnd_outcomes_def map_filter_simps split: option.splits)

lemma buildEnd_hooks_names:
  "map fst (filter (\<lambda>h. snd h \<noteq> None)
      (map (\<lambda>p. (p_name p, map_option (\<lambda>h. h err) (p_buildEnd p))) plugins))
   = map p_name (filter (\<lambda>p. p_buildEnd p \<noteq> None) plugins)"
  by (induction plugins) auto

lemma build_phase_failed:
  "snd (applyBuildStartHook plugins) = Fulfils \<Longrightarrow>
   build_phase plugins (Inl e) =
     \<lparr> br_buildStart = fst (applyBuildStartHook plugins), br_graph_built = True,
       br_buildEnd = fst (build_failed plugins e),
       br_result = Inl (snd (build_failed plugins e)) \<rparr>"
  by (cases "applyBuildStartHook plugins") (simp add: build_phase_def split: prod.splits)

lemma build_failed_args: "\<forall>c \<in> set (fst (build_failed plugins e)). snd c = Some e"
  by (auto simp: build_failed_def split: prod.splits hook_result.splits)

lemma build_failed_no_throw:
  assumes "\<forall>r \<in> set (buildEnd_outcomes plugins (Some e)). \<not> is_throw r"
  shows "fst (build_failed plugins e) =
           map (\<lambda>p. (p_name p, Some e)) (filter (\<lambda>p. p_buildEnd p \<noteq> None) plugins)"
    and "snd (build_failed plugins e) =
           (case promise_all (buildEnd_outcomes plugins (Some e)) of Rejects e' \<Rightarrow> e' | _ \<Rightarrow> e)"
proof -
  let ?hs = "map (\<lambda>p. (p_name p, map_option (\<lambda>h. h (Some e)) (p_buildEnd p))) plugins"
  have "invoke_all ?hs = (map fst (filter (\<lambda>h. snd h \<noteq> None) ?hs), Inr (List.map_filter snd ?hs))"
    by (rule invoke_all_no_throw) (use assms in \<open>simp add: buildEnd_hooks_outcomes\<close>)
  then have inv: "invoke_all ?hs = (map p_name (filter (\<lambda>p. p_buildEnd p \<noteq> None) plugins),
      Inr (buildEnd_outcomes plugins (Some e)))"
    by (simp only: buildEnd_hooks_outcomes buildEnd_hooks_names)
  have nt: "\<And>e'. promise_all (buildEnd_outcomes plugins (Some e)) \<noteq> Throws e'"
    using assms by (rule promise_all_not_Throws)
  show "fst (build_failed plugins e) =
           map (\<lambda>p. (p_name p, Some e)) (filter (\<lambda>p. p_buildEnd p \<noteq> None) plugins)"
    using inv by (simp add: build_failed_def applyBuildEndHook_def fan_out_def comp_def
        split: hook_result.splits)
  show "snd (build_failed plugins e) =
           (case promise_all (buildEnd_outcomes plugins (Some e)) of Rejects e' \<Rightarrow> e' | _ \<Rightarrow> e)"
    using inv nt by (simp add: build_failed_def applyBuildEndHook_def fan_out_def
        split: hook_result.splits)
qed

lemma build_failed_throw:
  assumes "\<exists>r \<in> set (buildEnd_outcomes plugins (Some e)). is_throw r"
  shows "Throws (snd (build_failed plugins e)) \<in> set (buildEnd_outcomes plugins (Some e))"
proof -
  let ?hs = "map (\<lambda>p. (p_name p, map_option (\<lambda>h. h (Some e)) (p_buildEnd p))) plugins"
  obtain ls res where inv: "invoke_all ?hs = (ls, res)" by (cases "invoke_all ?hs")
  show ?thesis
  proof (cases res)
    case (Inl e')
    with inv have "Throws e' \<in> set (List.map_filter snd ?hs)" by (simp add: invoke_all_throw)
    then show ?thesis using inv Inl
      by (simp add: buildEnd_hooks_outcomes build_failed_def applyBuildEndHook_def fan_out_def)
  next
    case (Inr rs)
    with inv have "rs = List.map_filter snd ?hs" by (simp add: invoke_all_returns)
    then have rs: "rs = buildEnd_outcomes plugins (Some e)" by (simp only: buildEnd_hooks_outcomes)
    have "\<forall>r \<in> set rs. \<not> is_throw r"
      using inv Inr by (simp add: invoke_all_returns_no_throw)
    then show ?thesis using assms rs by simp
  qed
qed


text \<open>
  C2, as the specification states it, fails: when \<^verbatim>\<open>graph.build\<close> fails and the
  \<^verbatim>\<open>buildEnd\<close> hook of a plugin returns a promise that is rejected, the hooks of both
  plugins are invoked with the failure of the build, and the promise of \<^verbatim>\<open>rollup\<close> is
  rejected with the reason of the hook, not with the failure of the build.
\<close>

theorem buildEnd_failure_replaces_build_failure:
  "br_buildEnd (build_phase
      [(plain_plugin ''a'')\<lparr> p_buildEnd := Some (buildEnd_rejects (RollupError None ''buildEnd failed'')) \<rparr>,
       (plain_plugin ''b'')\<lparr> p_buildEnd := Some buildEnd_returns \<rparr>]
      (Inl (RollupError None ''graph failed'') :: rollup_error + chunk list))
     = [(''a'', Some (RollupError None ''graph failed'')), (''b'', Some (RollupError None ''graph failed''))] \<and>
   br_result (build_phase
      [(plain_plugin ''a'')\<lparr> p_buildEnd := Some (buildEnd_rejects (RollupError None ''buildEnd failed'')) \<rparr>,
       (plain_plugin ''b'')\<lparr> p_buildEnd := Some buildEnd_returns \<rparr>]
      (Inl (RollupError None ''graph failed'') :: rollup_error + chunk list))
     = Inl (RollupError None ''buildEnd failed'') \<and>
   RollupError None ''buildEnd failed'' \<noteq> RollupError None ''graph failed''"
  by (simp add: build_phase_def build_failed_def applyBuildStartHook_def applyBuildEndHook_def
      fan_out_def plain_plugin_def buildEnd_rejects_def buildEnd_returns_def)

text \<open>
  C2, amended.  When \<^verbatim>\<open>buildStart\<close> has succeeded and \<^verbatim>\<open>graph.build\<close> fails with \<open>e\<close>:
  every \<^verbatim>\<open>buildEnd\<close> hook that is invoked is given \<open>e\<close>; unless one of them throws
  synchronously, the hook of every plugin that has one is invoked, in the order of the
  plugins; when every hook succeeds the promise is rejected with \<open>e\<close>; and when some hook
  fails the promise is rejected with the failure of a \<^verbatim>\<open>buildEnd\<close> hook, which takes the
  place of \<open>e\<close>.
\<close>

theorem buildEnd_after_failed_graph_build:
  assumes "snd (applyBuildStartHook plugins) = Fulfils"
  shows "br_graph_built (build_phase plugins (Inl e :: rollup_error + chunk list)) \<and>
     (\<forall>c \<in> set (br_buildEnd (build_phase plugins (Inl e :: rollup_error + chunk list))). snd c = Some e) \<and>
     ((\<forall>r \<in> set (buildEnd_outcomes plugins (Some e)). \<not> is_throw r) \<longrightarrow>
        br_buildEnd (build_phase plugins (Inl e :: rollup_error + chunk list)) =
          map (\<lambda>p. (p_name p, Some e)) (filter (\<lambda>p. p_buildEnd p \<noteq> None) plugins)) \<and>
     ((\<forall>r \<in> set (buildEnd_outcomes plugins (Some e)). r = Fulfils) \<longrightarrow>
        br_result (build_phase plugins (Inl e :: rollup_error + chunk list)) = Inl e) \<and>
     ((\<exists>r \<in> set (buildEnd_outcomes plugins (Some e)). r \<noteq> Fulfils) \<longrightarrow>
        (\<exists>e'. br_result (build_phase plugins (Inl e :: rollup_error + chunk list)) = Inl e' \<and>
              (Throws e' \<in> set (buildEnd_outcomes plugins (Some e)) \<or>
               Rejects e' \<in> set (buildEnd_outcomes plugins (Some e)))))"
proof -
  let ?rs = "buildEnd_outcomes plugins (Some e)"
  note run = build_phase_failed [OF assms, of e]
  have args: "\<forall>c \<in> set (fst (build_failed plugins e)). snd c = Some e"
    by (rule build_failed_args)
  have calls: "(\<forall>r \<in> set ?rs. \<not> is_throw r) \<longrightarrow> fst (build_failed plugins e) =
      map (\<lambda>p. (p_name p, Some e)) (filter (\<lambda>p. p_buildEnd p \<noteq> None) plugins)"
    by (simp add: build_failed_no_throw(1))
  have ok: "(\<forall>r \<in> set ?rs. r = Fulfils) \<longrightarrow> snd (build_failed plugins e) = e"
  proof
    assume a: "\<forall>r \<in> set ?rs. r = Fulfils"
    then have "\<forall>r \<in> set ?rs. \<not> is_throw r" by (auto simp: is_throw_def)
    then have "snd (build_failed plugins e) =
        (case promise_all ?rs of Rejects e' \<Rightarrow> e' | _ \<Rightarrow> e)"
      by (rule build_failed_no_throw(2))
    then show "snd (build_failed plugins e) = e" using promise_all_Fulfils [OF a] by simp
  qed
  have bad: "(\<exists>r \<in> set ?rs. r \<noteq> Fulfils) \<longrightarrow>
      (Throws (snd (build_failed plugins e)) \<in> set ?rs \<or>
       Rejects (snd (build_failed plugins e)) \<in> set ?rs)"
  proof
    assume a: "\<exists>r \<in> set ?rs. r \<noteq> Fulfils"
    show "Throws (snd (build_failed plugins e)) \<in> set ?rs \<or>
          Rejects (snd (build_failed plugins e)) \<in> set ?rs"
    proof (cases "\<exists>r \<in> set ?rs. is_throw r")
      case True
      then show ?thesis by (simp add: build_failed_throw)
    next
      case False
      then have nt: "\<forall>r \<in> set ?rs. \<not> is_throw r" by simp
      from promise_all_some_fails [OF nt a] obtain e' where e': "promise_all ?rs = Rejects e'" ..
      then have "snd (build_failed plugins e) = e'" by (simp add: build_failed_no_throw(2) [OF nt])
      moreover have "Rejects e' \<in> set ?rs" using e' by (rule promise_all_Rejects)
      ultimately show ?thesis by simp
    qed
  qed
  show ?thesis
    unfolding run using args calls ok bad by simp
qed

theorem buildEnd_after_failed_graph_build_witness:
  "br_buildEnd (build_phase
      [(plain_plugin ''a'')\<lparr> p_buildEnd := Some buildEnd_returns \<rparr>, plain_plugin ''b'',
       (plain_plugin ''c'')\<lparr> p_buildEnd := Some buildEnd_returns \<rparr>]
      (Inl (RollupError None ''graph failed'') :: rollup_error + chunk list))
     = [(''a'', Some (RollupError None ''graph failed'')), (''c'', Some (RollupError None ''graph failed''))] \<and>
   br_result (build_phase
      [(plain_plugin ''a'')\<lparr> p_buildEnd := Some buildEnd_returns \<rparr>, plain_plugin ''b'',
       (plain_plugin ''c'')\<lparr> p_buildEnd := Some buildEnd_returns \<rparr>]
      (Inl (RollupError None ''graph failed'') :: rollup_error + chunk list))
     = Inl (RollupError None ''graph failed'') \<and>
   br_result (build_phase
      [(plain_plugin ''a'')\<lparr> p_buildEnd := Some (buildEnd_rejects (RollupError None ''hook failed'')) \<rparr>,
       (plain_plugin ''c'')\<lparr> p_buildEnd := Some buildEnd_returns \<rparr>]
      (Inl (RollupError None ''graph failed'') :: rollup_error + chunk list))
     = Inl (RollupError None ''hook failed'')"
  using buildEnd_after_failed_graph_build
    [of "[(plain_plugin ''a'')\<lparr> p_buildEnd := Some buildEnd_returns \<rparr>, plain_plugin ''b'',
          (plain_plugin ''c'')\<lparr> p_buildEnd := Some buildEnd_returns \<rparr>]"
        "RollupError None ''graph failed''"]
    buildEnd_after_failed_graph_build
    [of "[(plain_plugin ''a'')\<lparr> p_buildEnd := Some (buildEnd_rejects (RollupError None ''hook failed'')) \<rparr>,
          (plain_plugin ''c'')\<lparr> p_buildEnd := Some buildEnd_returns \<rparr>]"
        "RollupError None ''graph failed''"]
  by (simp add: applyBuildStartHook_def fan_out_def plain_plugin_def buildEnd_outcomes_def
      map_filter_simps is_throw_def buildEnd_rejects_def buildEnd_returns_def)

section \<open>Properties of the generate phase\<close>

lemmas generate_defs =
  generate_def generate_bundle_def generateBundle_stage_def generate_checks_def
  normalizeOutputOptions_def consolidatedOutputOptions_def consolidated_output_def spread_def
  checkOutputOptions_def option_error_set_def pass_through_merge_def get_prop_def or_default_def
  pre_render_def optimize_once_def prepare_chunk_def chunk_file_name_def render_chunk_def
  hook_failure_def fan_out_def share_assets_def finaliseAsset_def error_def
  simple_env_def simple_chunk_def plain_plugin_def new_build_def js_string_def js_text_def
  Let_def







text \<open>
  The comparator on a shared chunk and an entry chunk: \<^verbatim>\<open>undefined\<close> one way round,
  \<open>-1\<close> the other.  Its negative answers are nevertheless those of the order entry
  chunks, shared chunks, assets (lemma \<open>compare_output_sign\<close>), and that is all that a
  sort of the kind asked for looks at.
\<close>

lemma comparator_undefined_for_shared_then_entry:
  "compare_output (OutputChunk ''chunk-a.js'' False [] [] [] (Some ''a'') None)
                  (OutputChunk ''main.js'' True [] [] [] (Some ''m'') None) = None \<and>
   compare_output (OutputChunk ''main.js'' True [] [] [] (Some ''m'') None)
                  (OutputChunk ''chunk-a.js'' False [] [] [] (Some ''a'') None) = Some (- 1)"
  by (simp add: compare_output_def)




text \<open>
  C5: an asset that was emitted without a source, on a build none of whose plugins has a
  \<^verbatim>\<open>generateBundle\<close> hook.  \<^verbatim>\<open>generate\<close> returns at
  \<^verbatim>\<open>if (generateBundlePlugins.length === 0) return;\<close>, before the loop that finalises the
  pending assets: the call succeeds, and the asset is left without a file name.
\<close>

theorem sourceless_asset_survives_generate:
  "generate (simple_env [] [plain_plugin ''p''])
     (new_build [simple_chunk (Some ''main.js'')]
        [(''1'', \<lparr> a_name = ''logo.png'', a_source = None, a_fileName = None \<rparr>)])
     (JObj [(''format'', JStr ''es'')]) False
   = (\<lparr> bs_chunks = [(simple_chunk (Some ''main.js''))
                         \<lparr> c_id := Some ''main.js'', c_exportMode := Some ''auto'' \<rparr>],
        bs_optimized = False,
        bs_assetsById = [(''1'', \<lparr> a_name = ''logo.png'', a_source = None, a_fileName = None \<rparr>)],
        bs_optimize_calls = 0, bs_warnings = [] \<rparr>,
      Inr [(''main.js'', OutputChunk ''main.js'' True [] [] [] (Some ''export {};'') None)])"
  by (simp add: generate_defs)

text \<open>
  The same build with a plugin that has a \<^verbatim>\<open>generateBundle\<close> hook, even one that does
  nothing: the loop is reached and the call fails.
\<close>

lemma sourceless_asset_fails_with_generateBundle_plugin:
  "snd (generate
     (simple_env []
        [(plain_plugin ''p'')\<lparr> p_generateBundle := Some (\<lambda>oo b a w. ((b, a), Fulfils)) \<rparr>])
     (new_build [simple_chunk (Some ''main.js'')]
        [(''1'', \<lparr> a_name = ''logo.png'', a_source = None, a_fileName = None \<rparr>)])
     (JObj [(''format'', JStr ''es'')]) False)
   = Inl (RollupError (Some ''ASSET_SOURCE_MISSING'') ''No source set for asset logo.png'')"
  by (simp add: generate_defs)


lemma generate_after_normalization:
  assumes "normalizeOutputOptions (env_mergeOptions env) (env_inputOptions env) rawOutputOptions
             = (warnings, Inr outputOptions)"
  shows "generate env st rawOutputOptions isWrite =
     (case generate_checks (bs_chunks st) outputOptions of
        Inl e \<Rightarrow> (st\<lparr> bs_warnings := bs_warnings st @ warnings \<rparr>, Inl e)
      | Inr u \<Rightarrow> generate_bundle env (st\<lparr> bs_warnings := bs_warnings st @ warnings \<rparr>)
                   outputOptions isWrite)"
  using assms by (simp add: generate_def Let_def)

text \<open>
  C8, as the specification states it, fails: \<^verbatim>\<open>generate\<close> normalizes the output options
  before it checks them, and a call with both \<^verbatim>\<open>file\<close> and \<^verbatim>\<open>dir\<close> and no format fails
  in the normalization, with a failure that carries no code.
\<close>

theorem generate_with_file_and_dir_without_format_has_no_code:
  "fails_with (snd (generate (simple_env [] [])
       (new_build [simple_chunk (Some ''main.js'')] [])
       (JObj [(''file'', JStr ''out.js''), (''dir'', JStr ''d'')]) False)) None \<and>
   \<not> fails_with (snd (generate (simple_env [] [])
       (new_build [simple_chunk (Some ''main.js'')] [])
       (JObj [(''file'', JStr ''out.js''), (''dir'', JStr ''d'')]) False)) (Some ''INVALID_OPTION'')"
  by (simp add: generate_defs fails_with_def)

lemma generate_normalization_fails:
  assumes "normalizeOutputOptions (env_mergeOptions env) (env_inputOptions env) rawOutputOptions
             = (warnings, Inl e)"
  shows "snd (generate env st rawOutputOptions isWrite) = Inl e" and "err_code e = None"
proof -
  show "snd (generate env st rawOutputOptions isWrite) = Inl e"
    using assms by (simp add: generate_def Let_def)
  have "snd (normalizeOutputOptions (env_mergeOptions env) (env_inputOptions env) rawOutputOptions) = Inl e"
    using assms by simp
  then show "err_code e = None" by (rule normalizeOutputOptions_failure_code)
qed

text \<open>
  C8, amended.  A generate call whose output options fail to normalize fails with the
  failure of the normalization, which carries no code.  A generate call whose output
  options normalize fails with \<^verbatim>\<open>INVALID_OPTION\<close> when \<^verbatim>\<open>file\<close> and \<^verbatim>\<open>dir\<close> are both
  strings; it fails with \<^verbatim>\<open>INVALID_OPTION\<close> when the build has more than one chunk and
  the format is \<^verbatim>\<open>umd\<close> or \<^verbatim>\<open>iife\<close>; and with exactly one chunk, a format \<^verbatim>\<open>umd\<close> or
  \<^verbatim>\<open>iife\<close> and not both \<^verbatim>\<open>file\<close> and \<^verbatim>\<open>dir\<close>, both checks pass and the call goes on
  to generate the bundle.
\<close>

theorem generate_normalizes_then_checks:
  "(normalizeOutputOptions (env_mergeOptions env) (env_inputOptions env) rawOutputOptions
       = (warnings, Inl e)
      \<longrightarrow> snd (generate env st rawOutputOptions isWrite) = Inl e \<and> err_code e = None) \<and>
   (normalizeOutputOptions (env_mergeOptions env) (env_inputOptions env) rawOutputOptions
       = (warnings, Inr outputOptions)
      \<longrightarrow>
      (is_string (get_prop outputOptions ''file'') \<and> is_string (get_prop outputOptions ''dir'')
         \<longrightarrow> fails_with (snd (generate env st rawOutputOptions isWrite)) (Some ''INVALID_OPTION'')) \<and>
      (length (bs_chunks st) > 1 \<and>
       (get_prop outputOptions ''format'' = JStr ''umd'' \<or>
        get_prop outputOptions ''format'' = JStr ''iife'')
         \<longrightarrow> fails_with (snd (generate env st rawOutputOptions isWrite)) (Some ''INVALID_OPTION'')) \<and>
      (length (bs_chunks st) = 1 \<and>
       (get_prop outputOptions ''format'' = JStr ''umd'' \<or>
        get_prop outputOptions ''format'' = JStr ''iife'') \<and>
       \<not> (is_string (get_prop outputOptions ''file'') \<and> is_string (get_prop outputOptions ''dir''))
         \<longrightarrow> generate_checks (bs_chunks st) outputOptions = Inr () \<and>
             generate env st rawOutputOptions isWrite =
               generate_bundle env (st\<lparr> bs_warnings := bs_warnings st @ warnings \<rparr>)
                 outputOptions isWrite))"
proof (intro conjI impI)
  assume "normalizeOutputOptions (env_mergeOptions env) (env_inputOptions env) rawOutputOptions
       = (warnings, Inl e)"
  then show "snd (generate env st rawOutputOptions isWrite) = Inl e" and "err_code e = None"
    by (rule generate_normalization_fails)+
next
  assume n: "normalizeOutputOptions (env_mergeOptions env) (env_inputOptions env) rawOutputOptions
       = (warnings, Inr outputOptions)"
  {
    assume "is_string (get_prop outputOptions ''file'') \<and> is_string (get_prop outputOptions ''dir'')"
    then show "fails_with (snd (generate env st rawOutputOptions isWrite)) (Some ''INVALID_OPTION'')"
      unfolding generate_after_normalization [OF n]
      by (auto simp: generate_checks_def error_def fails_with_def)
  }
  {
    assume "length (bs_chunks st) > 1 \<and>
       (get_prop outputOptions ''format'' = JStr ''umd'' \<or>
        get_prop outputOptions ''format'' = JStr ''iife'')"
    then show "fails_with (snd (generate env st rawOutputOptions isWrite)) (Some ''INVALID_OPTION'')"
      unfolding generate_after_normalization [OF n]
      by (auto simp: generate_checks_def error_def fails_with_def)
  }
  {
    assume a: "length (bs_chunks st) = 1 \<and>
       (get_prop outputOptions ''format'' = JStr ''umd'' \<or>
        get_prop outputOptions ''format'' = JStr ''iife'') \<and>
       \<not> (is_string (get_prop outputOptions ''file'') \<and> is_string (get_prop outputOptions ''dir''))"
    then show "generate_checks (bs_chunks st) outputOptions = Inr ()"
      by (auto simp: generate_checks_def)
    with a show "generate env st rawOutputOptions isWrite =
               generate_bundle env (st\<lparr> bs_warnings := bs_warnings st @ warnings \<rparr>)
                 outputOptions isWrite"
      unfolding generate_after_normalization [OF n] by simp
  }
qed

theorem generate_normalizes_then_checks_witness:
  "fails_with (snd (generate (simple_env [] [])
       (new_build [simple_chunk (Some ''main.js'')] [])
       (JObj [(''file'', JStr ''out.js''), (''dir'', JStr ''d'')]) False)) None \<and>
   fails_with (snd (generate (simple_env [] [])
       (new_build [simple_chunk (Some ''main.js'')] [])
       (JObj [(''format'', JStr ''es''), (''file'', JStr ''out.js''), (''dir'', JStr ''d'')]) False))
     (Some ''INVALID_OPTION'') \<and>
   fails_with (snd (generate (simple_env [] [])
       (new_build [simple_chunk (Some ''main.js''), simple_chunk None] [])
       (JObj [(''format'', JStr ''umd''), (''dir'', JStr ''d'')]) False))
     (Some ''INVALID_OPTION'') \<and>
   snd (generate (simple_env [] [])
       (new_build [simple_chunk (Some ''main.js'')] [])
       (JObj [(''format'', JStr ''iife''), (''file'', JStr ''out.js'')]) False)
     = Inr [(''out.js'', OutputChunk ''out.js'' True [] [] [] (Some ''export {};'') None)]"
proof -
  let ?env = "simple_env [] []"
  obtain e where n0: "normalizeOutputOptions (env_mergeOptions ?env) (env_inputOptions ?env)
       (JObj [(''file'', JStr ''out.js''), (''dir'', JStr ''d'')]) = ([], Inl e)"
    by (simp add: generate_defs)
  have n1: "normalizeOutputOptions (env_mergeOptions ?env) (env_inputOptions ?env)
       (JObj [(''format'', JStr ''es''), (''file'', JStr ''out.js''), (''dir'', JStr ''d'')])
     = ([], Inr [(''format'', JStr ''es''), (''file'', JStr ''out.js''), (''dir'', JStr ''d'')])"
    by (simp add: generate_defs)
  have n2: "normalizeOutputOptions (env_mergeOptions ?env) (env_inputOptions ?env)
       (JObj [(''format'', JStr ''umd''), (''dir'', JStr ''d'')])
     = ([], Inr [(''format'', JStr ''umd''), (''dir'', JStr ''d'')])"
    by (simp add: generate_defs)
  have n3: "normalizeOutputOptions (env_mergeOptions ?env) (env_inputOptions ?env)
       (JObj [(''format'', JStr ''iife''), (''file'', JStr ''out.js'')])
     = ([], Inr [(''format'', JStr ''iife''), (''file'', JStr ''out.js'')])"
    by (simp add: generate_defs)
  have g3: "snd (generate_bundle ?env
        ((new_build [simple_chunk (Some ''main.js'')] [])\<lparr> bs_warnings :=
            bs_warnings (new_build [simple_chunk (Some ''main.js'')] []) @ [] \<rparr>)
        [(''format'', JStr ''iife''), (''file'', JStr ''out.js'')] False)
     = Inr [(''out.js'', OutputChunk ''out.js'' True [] [] [] (Some ''export {};'') None)]"
    by (simp add: generate_defs)
  from generate_normalizes_then_checks
         [where env = ?env and rawOutputOptions = "JObj [(''file'', JStr ''out.js''), (''dir'', JStr ''d'')]"
            and warnings = "[]" and e = e
            and st = "new_build [simple_chunk (Some ''main.js'')] []" and isWrite = False]
  have c0: "fails_with (snd (generate ?env (new_build [simple_chunk (Some ''main.js'')] [])
       (JObj [(''file'', JStr ''out.js''), (''dir'', JStr ''d'')]) False)) None"
    using n0 by (simp add: fails_with_def)
  from generate_normalizes_then_checks
         [where env = ?env
            and rawOutputOptions =
              "JObj [(''format'', JStr ''es''), (''file'', JStr ''out.js''), (''dir'', JStr ''d'')]"
            and warnings = "[]"
            and outputOptions = "[(''format'', JStr ''es''), (''file'', JStr ''out.js''), (''dir'', JStr ''d'')]"
            and st = "new_build [simple_chunk (Some ''main.js'')] []" and isWrite = False]
  have c1: "fails_with (snd (generate ?env (new_build [simple_chunk (Some ''main.js'')] [])
       (JObj [(''format'', JStr ''es''), (''file'', JStr ''out.js''), (''dir'', JStr ''d'')]) False))
     (Some ''INVALID_OPTION'')"
    using n1 by (simp add: get_prop_def)
  from generate_normalizes_then_checks
         [where env = ?env
            and rawOutputOptions = "JObj [(''format'', JStr ''umd''), (''dir'', JStr ''d'')]"
            and warnings = "[]"
            and outputOptions = "[(''format'', JStr ''umd''), (''dir'', JStr ''d'')]"
            and st = "new_build [simple_chunk (Some ''main.js''), simple_chunk None] []"
            and isWrite = False]
  have c2: "fails_with (snd (generate ?env
       (new_build [simple_chunk (Some ''main.js''), simple_chunk None] [])
       (JObj [(''format'', JStr ''umd''), (''dir'', JStr ''d'')]) False))
     (Some ''INVALID_OPTION'')"
    using n2 by (simp add: get_prop_def new_build_def)
  from generate_normalizes_then_checks
         [where env = ?env
            and rawOutputOptions = "JObj [(''format'', JStr ''iife''), (''file'', JStr ''out.js'')]"
            and warnings = "[]"
            and outputOptions = "[(''format'', JStr ''iife''), (''file'', JStr ''out.js'')]"
            and st = "new_build [simple_chunk (Some ''main.js'')] []" and isWrite = False]
  have c3: "snd (generate ?env (new_build [simple_chunk (Some ''main.js'')] [])
       (JObj [(''format'', JStr ''iife''), (''file'', JStr ''out.js'')]) False)
     = Inr [(''out.js'', OutputChunk ''out.js'' True [] [] [] (Some ''export {};'') None)]"
    using n3 g3 by (simp add: get_prop_def new_build_def)
  from c0 c1 c2 c3 show ?thesis by simp
qed

section \<open>Properties of the Build handle\<close>

text \<open>
  C10: in \<^verbatim>\<open>write\<close>, the single-file checks count the entries of the bundle, assets
  included.  When \<^verbatim>\<open>generate\<close> returns a bundle of exactly one chunk and at least one
  asset, and \<^verbatim>\<open>sourcemapFile\<close> is set or \<^verbatim>\<open>file\<close> is a string, the call fails with
  \<^verbatim>\<open>INVALID_OPTION\<close>, and nothing is written.
\<close>

theorem write_single_file_checks_count_assets:
  assumes "truthy outputOptions"
    and "truthy (member outputOptions ''dir'') \<or> truthy (member outputOptions ''file'')"
    and "generate env st outputOptions True = (st', Inr result)"
    and "length (filter (\<lambda>(fileName, file). \<not> isOutputAsset file) result) = 1"
    and "length (filter (\<lambda>(fileName, file). isOutputAsset file) result) \<ge> 1"
    and "truthy (member outputOptions ''sourcemapFile'') \<or> is_string (member outputOptions ''file'')"
  shows "fails_with (wr_result (write env st outputOptions)) (Some ''INVALID_OPTION'') \<and>
         wr_files (write env st outputOptions) = []"
proof -
  have "length result =
      length (filter (\<lambda>(fileName, file). isOutputAsset file) result) +
      length (filter (\<lambda>(fileName, file). \<not> isOutputAsset file) result)"
    using sum_length_filter_compl [of "\<lambda>(fileName, file). isOutputAsset file" result]
    by (simp add: case_prod_unfold)
  with assms(4,5) have many: "length result > 1" by linarith
  have "\<exists>m. write_checks env outputOptions result = Inl (RollupError (Some ''INVALID_OPTION'') m)"
    using many assms(6) by (auto simp: write_checks_def error_def)
  then obtain m where "write_checks env outputOptions result = Inl (RollupError (Some ''INVALID_OPTION'') m)" ..
  then show ?thesis
    using assms(1,2,3) by (auto simp: write_def fails_with_def)
qed

theorem write_single_file_checks_count_assets_witness:
  "fails_with (wr_result (write (simple_env [(''input'', JStr ''main.js'')] [])
       (new_build [simple_chunk (Some ''main.js'')]
          [(''1'', \<lparr> a_name = ''logo.png'', a_source = Some ''png'', a_fileName = None \<rparr>)])
       (JObj [(''format'', JStr ''es''), (''file'', JStr ''out.js'')])))
     (Some ''INVALID_OPTION'')"
proof -
  have g: "generate (simple_env [(''input'', JStr ''main.js'')] [])
       (new_build [simple_chunk (Some ''main.js'')]
          [(''1'', \<lparr> a_name = ''logo.png'', a_source = Some ''png'', a_fileName = None \<rparr>)])
       (JObj [(''format'', JStr ''es''), (''file'', JStr ''out.js'')]) True
     = (\<lparr> bs_chunks = [(simple_chunk (Some ''main.js''))
                           \<lparr> c_id := Some ''out.js'', c_exportMode := Some ''auto'' \<rparr>],
          bs_optimized = False,
          bs_assetsById = [(''1'', \<lparr> a_name = ''logo.png'', a_source = Some ''png'',
                                     a_fileName = Some ''assets/logo.png'' \<rparr>)],
          bs_optimize_calls = 0, bs_warnings = [] \<rparr>,
        Inr [(''assets/logo.png'', OutputAsset ''assets/logo.png'' ''png''),
             (''out.js'', OutputChunk ''out.js'' True [] [] [] (Some ''export {};'') None)])"
    by (simp add: generate_defs)
  show ?thesis
    using write_single_file_checks_count_assets [OF _ _ g]
    by (simp add: get_prop_def)
qed

lemma latch_ok_new_build: "latch_ok (new_build chunks assets)"
  by (simp add: latch_ok_def new_build_def)

lemma latch_ok_optimize_once: "latch_ok st \<Longrightarrow> latch_ok (optimize_once env outputOptions inputBase st)"
  by (simp add: latch_ok_def optimize_once_def)

lemma latch_ok_pre_render: "latch_ok st \<Longrightarrow> latch_ok (pre_render env outputOptions inputBase st)"
  unfolding pre_render_def by (rule latch_ok_optimize_once) (simp add: latch_ok_def)

lemma latch_ok_generateBundle_stage:
  "latch_ok st \<Longrightarrow>
   latch_ok (fst (generateBundle_stage env outputOptions assetFileNames isWrite st outputBundle))"
  by (auto simp: generateBundle_stage_def Let_def latch_ok_def
      split: prod.splits sum.splits option.splits)

lemma latch_ok_run_block: "latch_ok st \<Longrightarrow> latch_ok (run_block env block st)"
  by (cases block)
     (simp_all add: latch_ok_pre_render latch_ok_generateBundle_stage, simp_all add: latch_ok_def)

lemma latch_ok_blocks: "latch_ok st \<Longrightarrow> latch_ok (fold (run_block env) blocks st)"
  by (induction blocks arbitrary: st) (simp_all add: latch_ok_run_block)

lemma generate_bundle_blocks:
  "\<exists>blocks. fst (generate_bundle env st outputOptions isWrite) = fold (run_block env) blocks st"
proof -
  let ?names = "or_default (get_prop outputOptions ''assetFileNames'') ''assets/[name]-[hash][extname]''"
  let ?st1 = "run_block env (FinaliseAssetsBlock ?names) st"
  let ?base = "commondir env (List.map_filter c_entryModule (bs_chunks ?st1))"
  show ?thesis
  proof (cases "createAddons env outputOptions")
    case (Inl e)
    then have "fst (generate_bundle env st outputOptions isWrite) =
        fold (run_block env) [FinaliseAssetsBlock ?names] st"
      by (simp add: generate_bundle_def Let_def)
    then show ?thesis ..
  next
    case (Inr addons)
    let ?bundle0 = "snd (finaliseAssets env ?names (bs_assetsById st) [])"
    let ?st2 = "run_block env (PreRenderBlock outputOptions ?base) ?st1"
    let ?st3 = "run_block env (NameChunksBlock outputOptions addons ?base ?bundle0) ?st2"
    let ?bundle1 = "snd (name_chunks env outputOptions addons ?base (bs_chunks ?st2) ?bundle0)"
    show ?thesis
    proof (cases "render_chunks env outputOptions addons (bs_chunks ?st3) ?bundle1")
      case (Inl e)
      then have "fst (generate_bundle env st outputOptions isWrite) =
          fold (run_block env)
            [FinaliseAssetsBlock ?names, PreRenderBlock outputOptions ?base,
             NameChunksBlock outputOptions addons ?base ?bundle0] st"
        using Inr by (simp add: generate_bundle_def Let_def)
      then show ?thesis ..
    next
      case (Inr rendered)
      then have "fst (generate_bundle env st outputOptions isWrite) =
          fold (run_block env)
            [FinaliseAssetsBlock ?names, PreRenderBlock outputOptions ?base,
             NameChunksBlock outputOptions addons ?base ?bundle0,
             GenerateBundleBlock outputOptions ?names isWrite rendered] st"
        using \<open>createAddons env outputOptions = Inr addons\<close>
        by (simp add: generate_bundle_def Let_def)
      then show ?thesis ..
    qed
  qed
qed

lemma generate_blocks:
  "\<exists>blocks. fst (generate env st rawOutputOptions isWrite) = fold (run_block env) blocks st"
proof -
  obtain warnings normalized where n:
    "normalizeOutputOptions (env_mergeOptions env) (env_inputOptions env) rawOutputOptions
       = (warnings, normalized)"
    by (cases "normalizeOutputOptions (env_mergeOptions env) (env_inputOptions env) rawOutputOptions")
  let ?st0 = "run_block env (WarnBlock warnings) st"
  have stop: "fst (generate env st rawOutputOptions isWrite) = ?st0 \<Longrightarrow> ?thesis"
  proof -
    assume "fst (generate env st rawOutputOptions isWrite) = ?st0"
    then have "fst (generate env st rawOutputOptions isWrite) = fold (run_block env) [WarnBlock warnings] st"
      by simp
    then show ?thesis ..
  qed
  show ?thesis
  proof (cases normalized)
    case (Inl e)
    then show ?thesis using n by (intro stop) (simp add: generate_def Let_def)
  next
    case (Inr outputOptions)
    show ?thesis
    proof (cases "generate_checks (bs_chunks st) outputOptions")
      case (Inl e)
      then show ?thesis using n Inr by (intro stop) (simp add: generate_def Let_def)
    next
      case (Inr u)
      obtain blocks where "fst (generate_bundle env ?st0 outputOptions isWrite) =
          fold (run_block env) blocks ?st0"
        using generate_bundle_blocks by blast
      then have "fst (generate env st rawOutputOptions isWrite) =
          fold (run_block env) (WarnBlock warnings # blocks) st"
        using n Inr \<open>normalized = Inr outputOptions\<close> by (simp add: generate_def Let_def)
      then show ?thesis ..
    qed
  qed
qed

lemma write_blocks:
  "\<exists>blocks. wr_state (write env st outputOptions) = fold (run_block env) blocks st"
proof -
  have none: "fold (run_block env) [] st = st" by simp
  obtain blocks where g: "fst (generate env st outputOptions True) = fold (run_block env) blocks st"
    using generate_blocks by blast
  have "wr_state (write env st outputOptions) = st \<or>
        wr_state (write env st outputOptions) = fst (generate env st outputOptions True)"
    by (auto simp: write_def Let_def split: prod.splits sum.splits)
  then show ?thesis using none g by metis
qed

lemma run_calls_blocks:
  "\<exists>blocks. run_calls env st calls = fold (run_block env) blocks st"
proof (induction env st calls rule: run_calls.induct)
  case (1 env st)
  have "run_calls env st [] = fold (run_block env) [] st" by simp
  then show ?case ..
next
  case (2 env st rawOutputOptions calls)
  obtain b1 where b1: "fst (generate env st rawOutputOptions False) = fold (run_block env) b1 st"
    using generate_blocks by blast
  from 2 obtain b2 where "run_calls env (fst (generate env st rawOutputOptions False)) calls =
      fold (run_block env) b2 (fst (generate env st rawOutputOptions False))" by blast
  then have "run_calls env st (Generate rawOutputOptions # calls) = fold (run_block env) (b1 @ b2) st"
    using b1 by simp
  then show ?case ..
next
  case (3 env st outputOptions calls)
  obtain b1 where b1: "wr_state (write env st outputOptions) = fold (run_block env) b1 st"
    using write_blocks by blast
  from 3 obtain b2 where "run_calls env (wr_state (write env st outputOptions)) calls =
      fold (run_block env) b2 (wr_state (write env st outputOptions))" by blast
  then have "run_calls env st (Write outputOptions # calls) = fold (run_block env) (b1 @ b2) st"
    using b1 by simp
  then show ?case ..
qed

text \<open>
  In whatever order the steps of any number of calls are run, \<^verbatim>\<open>optimizeChunks\<close> is
  called at most once.
\<close>

lemma optimizeChunks_called_at_most_once_interleaved:
  "bs_optimize_calls (fold (run_block env) blocks (new_build chunks assets)) \<le> 1"
proof -
  have "latch_ok (fold (run_block env) blocks (new_build chunks assets))"
    by (rule latch_ok_blocks) (rule latch_ok_new_build)
  then show ?thesis by (simp add: latch_ok_def)
qed

text \<open>
  C6: over any sequence of \<^verbatim>\<open>generate\<close> and \<^verbatim>\<open>write\<close> calls on one Build,
  \<^verbatim>\<open>optimizeChunks\<close> is called at most once.  The state of the Build is that of a
  Build just returned by \<^verbatim>\<open>rollup\<close>; the collaborators, the options and the plugins are
  any.
\<close>

theorem optimizeChunks_called_at_most_once:
  "bs_optimize_calls (run_calls env (new_build chunks assets) calls) \<le> 1"
proof -
  obtain blocks where
    "run_calls env (new_build chunks assets) calls =
       fold (run_block env) blocks (new_build chunks assets)"
    using run_calls_blocks by blast
  moreover have "latch_ok (fold (run_block env) blocks (new_build chunks assets))"
    by (rule latch_ok_blocks) (rule latch_ok_new_build)
  ultimately show ?thesis by (simp add: latch_ok_def)
qed

theorem optimizeChunks_called_at_most_once_witness:
  "bs_optimize_calls (run_calls (simple_env [(''optimizeChunks'', JBool True)] [])
      (new_build [simple_chunk (Some ''main.js'')] [])
      [Generate (JObj [(''format'', JStr ''es'')]),
       Write (JObj [(''format'', JStr ''cjs''), (''dir'', JStr ''d'')]),
       Generate (JObj [(''format'', JStr ''es'')])]) \<le> 1 \<and>
   bs_optimize_calls (run_calls (simple_env [(''optimizeChunks'', JBool True)] [])
      (new_build [simple_chunk (Some ''main.js'')] [])
      [Generate (JObj [(''format'', JStr ''es'')]),
       Write (JObj [(''format'', JStr ''cjs''), (''dir'', JStr ''d'')]),
       Generate (JObj [(''format'', JStr ''es'')])]) = 1"
proof
  show "bs_optimize_calls (run_calls (simple_env [(''optimizeChunks'', JBool True)] [])
      (new_build [simple_chunk (Some ''main.js'')] [])
      [Generate (JObj [(''format'', JStr ''es'')]),
       Write (JObj [(''format'', JStr ''cjs''), (''dir'', JStr ''d'')]),
       Generate (JObj [(''format'', JStr ''es'')])]) \<le> 1"
    by (rule optimizeChunks_called_at_most_once)
  show "bs_optimize_calls (run_calls (simple_env [(''optimizeChunks'', JBool True)] [])
      (new_build [simple_chunk (Some ''main.js'')] [])
      [Generate (JObj [(''format'', JStr ''es'')]),
       Write (JObj [(''format'', JStr ''cjs''), (''dir'', JStr ''d'')]),
       Generate (JObj [(''format'', JStr ''es'')])]) = 1"
    by (simp add: generate_defs write_def write_checks_def)
qed

section \<open>Properties of the output writer\<close>

text \<open>
  C9, as the specification states it, fails: nothing makes the write of the code file wait
  for the write of the map file.  Both writes are issued before either is waited for, and
  when the file system completes the write of the code file first, the code file is
  complete before the map file is.
\<close>

theorem code_write_may_complete_before_map_write:
  "timeline (writeOutputFile (simple_env [] [])
       (OutputChunk ''main.js'' True [] [] [] (Some ''export {};'')
          (Some \<lparr> sm_toString = ''{}'', sm_toUrl = ''data:'' \<rparr>))
       (JObj [(''format'', JStr ''es''), (''dir'', JStr ''d''), (''sourcemap'', JBool True)]))
     [''d/main.js'', ''d/main.js.map'']
   = [Issued ''d/main.js.map'', Issued ''d/main.js'',
      Completed ''d/main.js'', Completed ''d/main.js.map'', Settled]"
  by (simp add: timeline_def writeOutputFile_def Let_def simple_env_def js_string_def get_prop_def
      fan_out_def hook_failure_def)

text \<open>
  C9, amended.  For a chunk that has a source map, written with external source maps: the
  write of the \<^verbatim>\<open>.map\<close> file is issued first and the write of the code file second; the
  two are under way together; and in whichever order they are completed, the \<^verbatim>\<open>onwrite\<close>
  hooks are invoked and the promise of \<^verbatim>\<open>writeOutputFile\<close> is fulfilled only after both
  are completed.
\<close>

theorem map_write_issued_first_and_awaited_last:
  assumes "truthy (member outputOptions ''sourcemap'')"
    and "member outputOptions ''sourcemap'' \<noteq> JStr ''inline''"
    and "filename = resolve env
            (if truthy (member outputOptions ''dir'') then member outputOptions ''dir''
             else JStr (dirname env (member outputOptions ''file''))) f"
    and "w = writeOutputFile env (OutputChunk f e i x m code (Some sm)) outputOptions"
  shows "map fst (ow_writes w) = [filename @ ''.map'', filename] \<and>
         timeline w [filename @ ''.map'', filename] =
           [Issued (filename @ ''.map''), Issued filename,
            Completed (filename @ ''.map''), Completed filename] @
           map OnWrite (ow_onwrite w) @ [Settled] \<and>
         timeline w [filename, filename @ ''.map''] =
           [Issued (filename @ ''.map''), Issued filename,
            Completed filename, Completed (filename @ ''.map'')] @
           map OnWrite (ow_onwrite w) @ [Settled]"
proof -
  have writes: "ow_writes w =
      [(filename @ ''.map'', sm_toString sm),
       (filename, js_text code @ ''//# '' @ SOURCEMAPPING_URL @ ''='' @ basename env (JStr f) @
                    ''.map'' @ [char_of (10::nat)])]"
    using assms by (simp add: writeOutputFile_def Let_def)
  have awaits: "ow_awaits w = [filename, filename @ ''.map'']"
    using assms by (simp add: writeOutputFile_def Let_def)
  show ?thesis
    by (simp add: timeline_def writes awaits)
qed

theorem map_write_issued_first_and_awaited_last_witness:
  "map fst (ow_writes (writeOutputFile (simple_env [] [])
       (OutputChunk ''main.js'' True [] [] [] (Some ''export {};'')
          (Some \<lparr> sm_toString = ''{}'', sm_toUrl = ''data:'' \<rparr>))
       (JObj [(''format'', JStr ''es''), (''dir'', JStr ''d''), (''sourcemap'', JBool True)])))
     = [''d/main.js.map'', ''d/main.js''] \<and>
   timeline (writeOutputFile (simple_env [] [])
       (OutputChunk ''main.js'' True [] [] [] (Some ''export {};'')
          (Some \<lparr> sm_toString = ''{}'', sm_toUrl = ''data:'' \<rparr>))
       (JObj [(''format'', JStr ''es''), (''dir'', JStr ''d''), (''sourcemap'', JBool True)]))
     [''d/main.js.map'', ''d/main.js'']
   = [Issued ''d/main.js.map'', Issued ''d/main.js'',
      Completed ''d/main.js.map'', Completed ''d/main.js'', Settled]"
  using map_write_issued_first_and_awaited_last
    [where outputOptions = "JObj [(''format'', JStr ''es''), (''dir'', JStr ''d''), (''sourcemap'', JBool True)]"
       and env = "simple_env [] []" and f = "''main.js''" and filename = "''d/main.js''"
       and e = True and i = "[]" and x = "[]" and m = "[]" and code = "Some ''export {};''"
       and sm = "\<lparr> sm_toString = ''{}'', sm_toUrl = ''data:'' \<rparr>", OF _ _ _ refl]
  by (simp add: simple_env_def js_string_def get_prop_def writeOutputFile_def Let_def
      fan_out_def hook_failure_def)

end
